theory Spec2Isabelle
  imports Main "HOL-Library.Word" "HOL-Library.Product_Lexorder"
    "HOL-Library.Code_Target_Nat"
begin

section \<open>SpDatabaseWrapper: the data-access layer in front of the \<open>sp\<close> database\<close>

text \<open>
  A shallow embedding of \<^verbatim>\<open>src/shared/SpDatabaseWrapper.cpp\<close>. The C++ classes
  \<^verbatim>\<open>MysqlValue\<close>, \<^verbatim>\<open>MysqlResult\<close>, \<^verbatim>\<open>QueryException\<close> and
  \<^verbatim>\<open>SpDatabaseWrapperImpl\<close> are translated function by function. What the file calls
  but does not contain (the MySQL client library and server, and the C++ runtime) is either
  a parameter of the model or a definition marked as modelled. Left out are
  \<^verbatim>\<open>ConnectionSettings\<close> and \<^verbatim>\<open>Connect\<close> (the operations start from an open session),
  \<^verbatim>\<open>MysqlValue::AsLongLongInt\<close> (no operation calls it) and the methods of
  \<^verbatim>\<open>SpDatabaseWrapper\<close>, which only forward to \<^verbatim>\<open>SpDatabaseWrapperImpl\<close>.
\<close>

subsection \<open>Text: decimal output and \<^verbatim>\<open>atoi\<close>\<close>

abbreviation apostrophe :: char where
  "apostrophe \<equiv> CHR 0x27"

abbreviation backslash :: char where
  "backslash \<equiv> CHR 0x5C"

definition isdigit :: "char \<Rightarrow> bool" where
  "isdigit c = (c \<in> set ''0123456789'')"

definition isspace :: "char \<Rightarrow> bool" where
  "isspace c = (c \<in> set [CHR '' '', CHR 0x09, CHR 0x0A, CHR 0x0B, CHR 0x0C, CHR 0x0D])"

definition digit_char :: "nat \<Rightarrow> char" where
  "digit_char d = ''0123456789'' ! d"

definition digit_val :: "char \<Rightarrow> int" where
  "digit_val c = int (of_char c) - 48"

text \<open>
  \<^verbatim>\<open>stream << n\<close> for an integer \<open>n\<close>: its decimal digits, most significant first, after
  a minus sign when \<open>n\<close> is negative.
\<close>

fun show_nat :: "nat \<Rightarrow> string" where
  "show_nat n =
     (if n < 10 then [digit_char n] else show_nat (n div 10) @ [digit_char (n mod 10)])"

declare show_nat.simps [simp del]

definition show_int :: "int \<Rightarrow> string" where
  "show_int i = (if i < 0 then CHR ''-'' # show_nat (nat (- i)) else show_nat (nat i))"

text \<open>
  The value of a run of decimal digits at the head of a string, continuing from \<open>acc\<close>;
  reading stops at the first character that is not a digit.
\<close>

fun digits_value :: "int \<Rightarrow> string \<Rightarrow> int" where
  "digits_value acc [] = acc"
| "digits_value acc (c # cs) =
     (if isdigit c then digits_value (10 * acc + digit_val c) cs else acc)"

definition signed_value :: "string \<Rightarrow> int" where
  "signed_value s =
     (case s of
        [] \<Rightarrow> 0
      | c # cs \<Rightarrow>
          if c = CHR ''-'' then - digits_value 0 cs
          else if c = CHR ''+'' then digits_value 0 cs
          else digits_value 0 (c # cs))"

text \<open>
  \<^verbatim>\<open>s.c_str()\<close> read as a C string: the characters of \<open>s\<close> before its first NUL.
\<close>

definition c_str :: "string \<Rightarrow> string" where
  "c_str s = takeWhile (\<lambda>c. c \<noteq> CHR 0x00) s"

definition INT_MIN :: int where
  "INT_MIN = - (2 ^ 31)"

definition INT_MAX :: int where
  "INT_MAX = 2 ^ 31 - 1"

text \<open>
  \<^verbatim>\<open>atoi\<close> of the C library: leading white space is skipped, then an optional sign and the
  digits are read. C leaves the behaviour undefined when the value does not fit an
  \<^verbatim>\<open>int\<close>; the model answers \<open>None\<close> there.
\<close>

definition atoi :: "string \<Rightarrow> int option" where
  "atoi s =
     (let v = signed_value (dropWhile isspace s)
      in if INT_MIN \<le> v \<and> v \<le> INT_MAX then Some v else None)"

subsection \<open>Failures\<close>

text \<open>
  Every exception the file throws: \<^verbatim>\<open>std::logic_error\<close>, \<^verbatim>\<open>std::out_of_range\<close> and
  \<^verbatim>\<open>std::runtime_error\<close> with their messages, and the file's own \<^verbatim>\<open>QueryException\<close>
  with its query and its description. \<open>undefined_behaviour\<close> is not an exception: it marks
  the places where C and C++ assign no behaviour (as \<^verbatim>\<open>atoi\<close> on a value that does
  not fit, or a read past an array), and no handler catches it.
\<close>

datatype failure =
    logic_error string
  | out_of_range string
  | runtime_error string
  | QueryException string string
  | undefined_behaviour

fun what :: "failure \<Rightarrow> string" where
  "what (logic_error m) = m"
| "what (out_of_range m) = m"
| "what (runtime_error m) = m"
| "what (QueryException query description) = description"
| "what undefined_behaviour = []"

fun GetQuery :: "failure \<Rightarrow> string" where
  "GetQuery (QueryException query description) = query"
| "GetQuery _ = []"

text \<open>\<^verbatim>\<open>QueryException::Init\<close>; the cause is a null pointer (\<open>None\<close>) or a C string.\<close>

definition Init :: "string \<Rightarrow> string option \<Rightarrow> string" where
  "Init query cause =
     (case cause of
        None \<Rightarrow> ''An error occurred when processing a query.''
      | Some c \<Rightarrow> ''An error occurred when processing a query: '' @ c)
     @ '' The query string was: '' @ query"

text \<open>The constructors \<^verbatim>\<open>QueryException(query)\<close> and \<^verbatim>\<open>QueryException(query, cause)\<close>.\<close>

definition QueryException_new :: "string \<Rightarrow> string option \<Rightarrow> failure" where
  "QueryException_new query cause = QueryException query (Init query cause)"

text \<open>
  The handler every operation ends with:
  \<^verbatim>\<open>catch (exception ex) { throw QueryException(query, ex.what()); }\<close>.
  It catches by value, so \<^verbatim>\<open>ex\<close> is a \<^verbatim>\<open>std::exception\<close> copied from the thrown
  object, and \<^verbatim>\<open>ex.what()\<close> is \<^verbatim>\<open>std::exception::what\<close> on that copy. What that
  returns is left to the C++ library; it is the parameter \<open>ex_what\<close>, a function of the
  thrown object's own message.
\<close>

definition catch_exception :: "(string \<Rightarrow> string) \<Rightarrow> string \<Rightarrow> failure + 'a \<Rightarrow> failure + 'a" where
  "catch_exception ex_what query r =
     (case r of
        Inr a \<Rightarrow> Inr a
      | Inl undefined_behaviour \<Rightarrow> Inl undefined_behaviour
      | Inl e \<Rightarrow> Inl (QueryException_new query (Some (ex_what (what e)))))"

subsection \<open>\<^verbatim>\<open>MysqlValue\<close>\<close>

text \<open>A cell of a row as the client library hands it out: a null pointer or a C string.\<close>

type_synonym cell = "string option"

datatype MysqlValue = MysqlValue cell

fun MysqlValue_IsNull :: "MysqlValue \<Rightarrow> bool" where
  "MysqlValue_IsNull (MysqlValue v) = (v = None)"

fun AsString :: "MysqlValue \<Rightarrow> failure + string" where
  "AsString (MysqlValue None) =
     Inl (logic_error ''A null MySQL value cannot be converted to string.'')"
| "AsString (MysqlValue (Some v)) = Inr v"

fun AsInt :: "MysqlValue \<Rightarrow> failure + int" where
  "AsInt (MysqlValue None) =
     Inl (logic_error ''A null MySQL value cannot be converted to int.'')"
| "AsInt (MysqlValue (Some v)) =
     (case atoi v of None \<Rightarrow> Inl undefined_behaviour | Some i \<Rightarrow> Inr i)"

fun AsBool :: "MysqlValue \<Rightarrow> failure + bool" where
  "AsBool (MysqlValue None) =
     Inl (logic_error ''A null MySQL value cannot be converted to bool.'')"
| "AsBool (MysqlValue (Some v)) =
     (case AsInt (MysqlValue (Some v)) of Inl e \<Rightarrow> Inl e | Inr i \<Rightarrow> Inr (i \<noteq> 0))"

subsection \<open>The client library's result set\<close>

text \<open>
  \<^verbatim>\<open>MYSQL_RES\<close> as \<^verbatim>\<open>mysql_store_result\<close> returns it: the columns' names, all rows, and
  the position of the row \<^verbatim>\<open>mysql_fetch_row\<close> hands out next. A \<^verbatim>\<open>MYSQL_ROW\<close> is a
  null pointer once the rows are used up.
\<close>

type_synonym MYSQL_ROW = "cell list option"

record MYSQL_RES =
  field_names :: "string list"
  data :: "cell list list"
  data_cursor :: nat

definition mysql_num_rows :: "MYSQL_RES \<Rightarrow> 64 word" where
  "mysql_num_rows r = of_nat (length (data r))"

definition mysql_num_fields :: "MYSQL_RES \<Rightarrow> 32 word" where
  "mysql_num_fields r = of_nat (length (field_names r))"

definition mysql_fetch_row :: "MYSQL_RES \<Rightarrow> MYSQL_ROW \<times> MYSQL_RES" where
  "mysql_fetch_row r =
     (if data_cursor r < length (data r)
      then (Some (data r ! data_cursor r), r\<lparr>data_cursor := Suc (data_cursor r)\<rparr>)
      else (None, r))"

text \<open>The casts \<^verbatim>\<open>(int)\<close> of a 64-bit and of a 32-bit unsigned value.\<close>

definition int_of_ulonglong :: "64 word \<Rightarrow> int" where
  "int_of_ulonglong w = sint (ucast w :: 32 word)"

definition int_of_uint :: "32 word \<Rightarrow> int" where
  "int_of_uint w = sint w"

subsection \<open>\<^verbatim>\<open>MysqlResult\<close>\<close>

record MysqlResult =
  res :: "MYSQL_RES option"
  rowCount :: int
  columnCount :: int
  columnNames :: "string list"
  fetchedRows :: "MYSQL_ROW list"
  autoGeneratedId :: int

text \<open>
  The constructor \<^verbatim>\<open>MysqlResult(mysql, res)\<close>; of the session it reads
  \<^verbatim>\<open>mysql_insert_id(mysql)\<close> only, which is the argument \<open>insert_id\<close>.
\<close>

definition MysqlResult_new :: "64 word \<Rightarrow> MYSQL_RES option \<Rightarrow> MysqlResult" where
  "MysqlResult_new insert_id r =
     (case r of
        None \<Rightarrow>
          \<lparr>res = None, rowCount = 0, columnCount = 0, columnNames = [], fetchedRows = [],
           autoGeneratedId = int_of_ulonglong insert_id\<rparr>
      | Some mr \<Rightarrow>
          \<lparr>res = Some mr,
           rowCount = int_of_ulonglong (mysql_num_rows mr),
           columnCount = int_of_uint (mysql_num_fields mr),
           columnNames = [], fetchedRows = [],
           autoGeneratedId = int_of_ulonglong insert_id\<rparr>)"

definition MysqlResult_IsNull :: "MysqlResult \<Rightarrow> bool" where
  "MysqlResult_IsNull m = (res m = None)"

definition GetRowCount :: "MysqlResult \<Rightarrow> failure + int" where
  "GetRowCount m =
     (if res m = None
      then Inl (logic_error ''Cannot retrieve the row count because the result is null.'')
      else Inr (rowCount m))"

definition GetAutoGeneratedId :: "MysqlResult \<Rightarrow> int" where
  "GetAutoGeneratedId m = autoGeneratedId m"

text \<open>
  The accessors below change the object (\<^verbatim>\<open>columnNames\<close>, \<^verbatim>\<open>fetchedRows\<close>, the cursor
  of \<^verbatim>\<open>res\<close>), also when they throw: each returns its outcome and the object after it.
\<close>

type_synonym 'a result_op = "MysqlResult \<Rightarrow> (failure + 'a) \<times> MysqlResult"

definition throw :: "failure \<Rightarrow> 'a result_op" where
  "throw e m = (Inl e, m)"

definition return :: "'a \<Rightarrow> 'a result_op" where
  "return a m = (Inr a, m)"

definition lift :: "failure + 'a \<Rightarrow> 'a result_op" where
  "lift r m = (r, m)"

definition bind :: "'a result_op \<Rightarrow> ('a \<Rightarrow> 'b result_op) \<Rightarrow> 'b result_op" where
  "bind f g m = (case f m of (Inl e, m') \<Rightarrow> (Inl e, m') | (Inr a, m') \<Rightarrow> g a m')"

text \<open>
  The loop of \<^verbatim>\<open>FindColumnIndex\<close> over \<^verbatim>\<open>mysqlFields[i].name\<close> for \<open>i\<close> below
  \<^verbatim>\<open>columnCount\<close>: \<open>k\<close> iterations are left, the state is \<^verbatim>\<open>columnNames\<close> and
  \<^verbatim>\<open>columnIndex\<close>. \<open>None\<close>: the loop reads past the array of fields.
\<close>

fun FindColumnIndex_loop ::
  "string list \<Rightarrow> string \<Rightarrow> nat \<Rightarrow> nat \<Rightarrow> string list \<times> int \<Rightarrow> (string list \<times> int) option" where
  "FindColumnIndex_loop fs columnName 0 i st = Some st"
| "FindColumnIndex_loop fs columnName (Suc k) i (names, columnIndex) =
     (if i < length fs
      then FindColumnIndex_loop fs columnName k (Suc i)
             (names @ [fs ! i],
              if columnIndex = - 1 \<and> fs ! i = columnName then int i else columnIndex)
      else None)"

text \<open>\<^verbatim>\<open>std::find(begin, end, x) - begin\<close>: the first position of \<open>x\<close>, or the size.\<close>

definition find_position :: "'a \<Rightarrow> 'a list \<Rightarrow> nat" where
  "find_position x xs = length (takeWhile (\<lambda>y. y \<noteq> x) xs)"

definition FindColumnIndex_check :: "int \<Rightarrow> int result_op" where
  "FindColumnIndex_check columnIndex m =
     (if columnIndex = - 1 \<or> columnIndex = int (length (columnNames m))
      then (Inl (logic_error ''Column name not found.''), m)
      else (Inr columnIndex, m))"

definition FindColumnIndex :: "string \<Rightarrow> int result_op" where
  "FindColumnIndex columnName m =
     (case res m of
        None \<Rightarrow>
          (Inl (logic_error
             ''Cannot retrieve the name of a column because the result is null.''), m)
      | Some r \<Rightarrow>
          if columnCount m = 0
          then (Inl (logic_error
                  ''Cannot retrieve the name of a column because there are no columns.''), m)
          else if columnNames m = []
          then (case FindColumnIndex_loop (field_names r) columnName (nat (columnCount m)) 0
                       ([], - 1) of
                  None \<Rightarrow> (Inl undefined_behaviour, m)
                | Some (names, columnIndex) \<Rightarrow>
                    FindColumnIndex_check columnIndex (m\<lparr>columnNames := names\<rparr>))
          else FindColumnIndex_check (int (find_position columnName (columnNames m))) m)"

text \<open>
  The loop of \<^verbatim>\<open>GetValue\<close> that calls \<^verbatim>\<open>mysql_fetch_row\<close> and appends to
  \<^verbatim>\<open>fetchedRows\<close>, with \<open>n\<close> iterations left.
\<close>

fun fetch_rows :: "nat \<Rightarrow> MYSQL_RES \<Rightarrow> MYSQL_ROW list \<Rightarrow> MYSQL_ROW list \<times> MYSQL_RES" where
  "fetch_rows 0 r rows = (rows, r)"
| "fetch_rows (Suc n) r rows =
     (case mysql_fetch_row r of (row, r') \<Rightarrow> fetch_rows n r' (rows @ [row]))"

text \<open>
  \<^verbatim>\<open>fetchedRows[rowIndex][columnIndex]\<close>; a null row and an index past the row or past
  the vector have no defined behaviour.
\<close>

definition fetched_cell :: "MYSQL_ROW list \<Rightarrow> int \<Rightarrow> int \<Rightarrow> failure + MysqlValue" where
  "fetched_cell rows rowIndex columnIndex =
     (if nat rowIndex < length rows
      then (case rows ! nat rowIndex of
              None \<Rightarrow> Inl undefined_behaviour
            | Some row \<Rightarrow>
                if nat columnIndex < length row
                then Inr (MysqlValue (row ! nat columnIndex))
                else Inl undefined_behaviour)
      else Inl undefined_behaviour)"

text \<open>\<^verbatim>\<open>GetValue(int rowIndex, int columnIndex)\<close>.\<close>

definition GetValue_row_index :: "int \<Rightarrow> int \<Rightarrow> MysqlValue result_op" where
  "GetValue_row_index rowIndex columnIndex m =
     (case res m of
        None \<Rightarrow>
          (Inl (logic_error ''Cannot retrieve a value because the result is null.''), m)
      | Some r \<Rightarrow>
          if columnCount m = 0
          then (Inl (out_of_range ''Cannot retrieve a value because there are no columns.''), m)
          else if rowCount m = 0
          then (Inl (out_of_range ''Cannot retrieve a value because there are no rows.''), m)
          else if columnIndex < 0
          then (Inl (out_of_range ''Column index cannot be negative.''), m)
          else if rowIndex < 0
          then (Inl (out_of_range ''Row index cannot be negative.''), m)
          else if columnIndex > columnCount m - 1
          then (Inl (out_of_range ''Column index is out of range.''), m)
          else if rowIndex > rowCount m - 1
          then (Inl (out_of_range ''Row index is out of range.''), m)
          else
            let m' =
              (if rowIndex > int (length (fetchedRows m)) - 1
               then (case fetch_rows (nat (rowIndex + 1 - int (length (fetchedRows m)))) r
                            (fetchedRows m) of
                       (rows, r') \<Rightarrow> m\<lparr>res := Some r', fetchedRows := rows\<rparr>)
               else m)
            in (fetched_cell (fetchedRows m') rowIndex columnIndex, m'))"

text \<open>\<^verbatim>\<open>GetValue(int columnIndex)\<close>.\<close>

definition GetValue_index :: "int \<Rightarrow> MysqlValue result_op" where
  "GetValue_index columnIndex = GetValue_row_index 0 columnIndex"

text \<open>\<^verbatim>\<open>GetValue()\<close>.\<close>

definition GetValue :: "MysqlValue result_op" where
  "GetValue = GetValue_index 0"

text \<open>\<^verbatim>\<open>GetValue(const char* columnName)\<close>.\<close>

definition GetValue_name :: "string \<Rightarrow> MysqlValue result_op" where
  "GetValue_name columnName = bind (FindColumnIndex columnName) GetValue_index"

text \<open>\<^verbatim>\<open>GetValue(int rowIndex, const char* columnName)\<close>.\<close>

definition GetValue_row_name :: "int \<Rightarrow> string \<Rightarrow> MysqlValue result_op" where
  "GetValue_row_name rowIndex columnName =
     bind (FindColumnIndex columnName) (GetValue_row_index rowIndex)"

subsection \<open>The session and \<^verbatim>\<open>ExecuteQuery\<close>\<close>

text \<open>
  What one round trip to the server leaves in the session \<^verbatim>\<open>MYSQL mysql\<close>, given the
  statement as a C string: \<^verbatim>\<open>mysql_query\<close> failed (with \<^verbatim>\<open>mysql_error\<close>), or
  \<^verbatim>\<open>mysql_store_result\<close> left \<^verbatim>\<open>mysql_errno\<close> set, or the statement went through with
  its result set (a null pointer for a statement that returns no rows) and
  \<^verbatim>\<open>mysql_insert_id\<close>.
\<close>

datatype reply =
    QueryFailed string
  | StoreFailed string
  | Stored "MYSQL_RES option" "64 word"

text \<open>
  The two things the file takes from outside: the server behind the session, as a function
  from the session's state \<open>'s\<close> and the statement text to the reply and the new state,
  and \<^verbatim>\<open>std::exception::what\<close> on a copy caught by value (see \<open>catch_exception\<close>).
\<close>

record 's runtime =
  mysql_query :: "'s \<Rightarrow> string \<Rightarrow> reply \<times> 's"
  exception_what :: "string \<Rightarrow> string"

definition ExecuteQueryUnsafe :: "'s runtime \<Rightarrow> string \<Rightarrow> 's \<Rightarrow> (failure + MysqlResult) \<times> 's" where
  "ExecuteQueryUnsafe R queryString s =
     (case mysql_query R s (c_str queryString) of
        (QueryFailed err, s') \<Rightarrow>
          (Inl (runtime_error
             (''An error occurred when storing a result from a MySQL query: '' @ err)), s')
      | (StoreFailed err, s') \<Rightarrow>
          (Inl (runtime_error
             (''An error occurred when storing a result from a MySQL query: '' @ err)), s')
      | (Stored r insert_id, s') \<Rightarrow> (Inr (MysqlResult_new insert_id r), s'))"

text \<open>
  \<^verbatim>\<open>ExecuteQuery\<close> wraps \<^verbatim>\<open>ExecuteQueryUnsafe\<close> in \<^verbatim>\<open>queryLock\<close>; with one caller
  at a time, which is all this theory looks at, the lock changes nothing.
\<close>

definition ExecuteQuery :: "'s runtime \<Rightarrow> string \<Rightarrow> 's \<Rightarrow> (failure + MysqlResult) \<times> 's" where
  "ExecuteQuery R queryString s = ExecuteQueryUnsafe R queryString s"

text \<open>
  \<^verbatim>\<open>ExecuteQuery(const stringstream&)\<close>, which passes
  \<^verbatim>\<open>queryString.str().c_str()\<close> on.
\<close>

definition ExecuteQuery_stream ::
  "'s runtime \<Rightarrow> string \<Rightarrow> 's \<Rightarrow> (failure + MysqlResult) \<times> 's" where
  "ExecuteQuery_stream R queryString s = ExecuteQuery R (c_str queryString) s"

text \<open>
  The block every operation is made of:
  \<^verbatim>\<open>try { MysqlResultPtr res = ExecuteQuery(query); body } catch (exception ex) { throw QueryException(query, ex.what()); }\<close>
  where \<open>body\<close> reads from \<^verbatim>\<open>res\<close>.
\<close>

definition try_query :: "'s runtime \<Rightarrow> string \<Rightarrow> 'a result_op \<Rightarrow> 's \<Rightarrow> (failure + 'a) \<times> 's" where
  "try_query R query body s =
     (case ExecuteQuery_stream R query s of
        (Inl e, s') \<Rightarrow> (catch_exception (exception_what R) query (Inl e), s')
      | (Inr m, s') \<Rightarrow> (catch_exception (exception_what R) query (fst (body m)), s'))"

subsection \<open>The operations of \<^verbatim>\<open>SpDatabaseWrapperImpl\<close>\<close>

text \<open>
  Modelled from the spec: the records \<^verbatim>\<open>UserLoginInfo\<close>, \<^verbatim>\<open>IpBanInfo\<close> and
  \<^verbatim>\<open>UserPostLoginInfo\<close> are declared in \<^verbatim>\<open>SpDatabaseWrapper.h\<close>, which is not among the
  sources; their fields are those of section 3 of the specification, in the order of the
  constructor calls in the file.
\<close>

record UserLoginInfo =
  password_hash :: string
  is_deleted :: bool
  ban_expiration :: int

record IpBanInfo =
  ip_ban_expiration :: int

record UserPostLoginInfo =
  is_male :: bool
  auth :: int
  default_character :: int
  rank :: int
  rank_record :: int
  points :: int
  code :: int

text \<open>\<^verbatim>\<open>stream << (int)isMale\<close>.\<close>

definition show_bool :: "bool \<Rightarrow> string" where
  "show_bool b = show_int (if b then 1 else 0)"

definition CreateUser_query :: "string \<Rightarrow> string \<Rightarrow> bool \<Rightarrow> string \<Rightarrow> string" where
  "CreateUser_query name password isMale creationIp =
     ''INSERT INTO user SET name = '' @ apostrophe # name @ apostrophe # '',password = '' @
     apostrophe # password @ apostrophe # '',is_male = '' @ show_bool isMale @
     (if creationIp = []
      then '', creation_ip = '' @ apostrophe # creationIp @ [apostrophe]
      else [])"

definition CreateUser ::
  "'s runtime \<Rightarrow> string \<Rightarrow> string \<Rightarrow> bool \<Rightarrow> string \<Rightarrow> 's \<Rightarrow> (failure + int) \<times> 's" where
  "CreateUser R name password isMale creationIp =
     try_query R (CreateUser_query name password isMale creationIp)
       (\<lambda>m. return (GetAutoGeneratedId m) m)"

definition GetUserId_query :: "string \<Rightarrow> string" where
  "GetUserId_query userName =
     ''SELECT id FROM user WHERE name = '' @ apostrophe # userName @ [apostrophe]"

definition GetUserId :: "'s runtime \<Rightarrow> string \<Rightarrow> 's \<Rightarrow> (failure + int) \<times> 's" where
  "GetUserId R userName =
     try_query R (GetUserId_query userName)
       (bind (\<lambda>m. lift (GetRowCount m) m)
          (\<lambda>n. if n > 0 then bind GetValue (\<lambda>v. lift (AsInt v)) else return 0))"

text \<open>The first block of \<^verbatim>\<open>GetUserLoginInfo\<close>: "get password and isDeleted".\<close>

definition GetUserLoginInfo_password_query :: "int \<Rightarrow> string" where
  "GetUserLoginInfo_password_query userId =
     ''SELECT password, is_deleted FROM user WHERE id = '' @ show_int userId"

definition GetUserLoginInfo_password ::
  "'s runtime \<Rightarrow> int \<Rightarrow> 's \<Rightarrow> (failure + string \<times> bool) \<times> 's" where
  "GetUserLoginInfo_password R userId =
     try_query R (GetUserLoginInfo_password_query userId)
       (bind (GetValue_name ''user'')
          (\<lambda>v. bind (lift (AsString v))
             (\<lambda>password. bind (GetValue_name ''is_deleted'')
                (\<lambda>v'. bind (lift (AsBool v'))
                   (\<lambda>isDeleted. return (password, isDeleted))))))"

text \<open>
  The second block of \<^verbatim>\<open>GetUserLoginInfo\<close>, "get banExpirationDate", and the one block of
  \<^verbatim>\<open>GetIpBanInfo\<close>: the same statement (over \<^verbatim>\<open>userban\<close> by \<^verbatim>\<open>user_id\<close>, over
  \<^verbatim>\<open>ipban\<close> by \<^verbatim>\<open>ip\<close>) and the same lines after it.
\<close>

definition GetUserLoginInfo_ban_query :: "int \<Rightarrow> string" where
  "GetUserLoginInfo_ban_query userId =
     ''(SELECT NULL as expiration_date_unix FROM userban WHERE user_id = '' @ show_int userId @
     '' AND expiration_date IS NULL) UNION '' @
     ''(SELECT UNIX_TIMESTAMP(expiration_date) AS expiration_date_unix FROM userban '' @
     ''WHERE user_id = '' @ show_int userId @
     '' AND expiration_date IS NOT NULL ORDER BY expiration_date_unix DESC) LIMIT 1''"

definition GetIpBanInfo_query :: "string \<Rightarrow> string" where
  "GetIpBanInfo_query ip =
     ''(SELECT NULL as expiration_date_unix FROM ipban WHERE ip = '' @
     apostrophe # ip @ apostrophe #
     '' AND expiration_date IS NULL) UNION '' @
     ''(SELECT UNIX_TIMESTAMP(expiration_date) AS expiration_date_unix FROM ipban '' @
     ''WHERE ip = '' @ apostrophe # ip @ apostrophe #
     '' AND expiration_date IS NOT NULL ORDER BY expiration_date_unix DESC) LIMIT 1''"

definition banExpirationDate_of :: "int result_op" where
  "banExpirationDate_of =
     bind (\<lambda>m. lift (GetRowCount m) m)
       (\<lambda>n. if n = 0 then return 0
             else bind GetValue
                    (\<lambda>v. if MysqlValue_IsNull v then return (- 1) else lift (AsInt v)))"

definition GetUserLoginInfo_ban :: "'s runtime \<Rightarrow> int \<Rightarrow> 's \<Rightarrow> (failure + int) \<times> 's" where
  "GetUserLoginInfo_ban R userId =
     try_query R (GetUserLoginInfo_ban_query userId) banExpirationDate_of"

definition GetUserLoginInfo :: "'s runtime \<Rightarrow> int \<Rightarrow> 's \<Rightarrow> (failure + UserLoginInfo) \<times> 's" where
  "GetUserLoginInfo R userId s =
     (case GetUserLoginInfo_password R userId s of
        (Inl e, s') \<Rightarrow> (Inl e, s')
      | (Inr (password, isDeleted), s') \<Rightarrow>
          (case GetUserLoginInfo_ban R userId s' of
             (Inl e, s'') \<Rightarrow> (Inl e, s'')
           | (Inr banExpirationDate, s'') \<Rightarrow>
               (Inr \<lparr>password_hash = c_str password, is_deleted = isDeleted,
                     ban_expiration = banExpirationDate\<rparr>, s'')))"

definition GetIpBanInfo :: "'s runtime \<Rightarrow> string \<Rightarrow> 's \<Rightarrow> (failure + IpBanInfo) \<times> 's" where
  "GetIpBanInfo R ip s =
     (case try_query R (GetIpBanInfo_query ip) banExpirationDate_of s of
        (Inl e, s') \<Rightarrow> (Inl e, s')
      | (Inr banExpirationDate, s') \<Rightarrow> (Inr \<lparr>ip_ban_expiration = banExpirationDate\<rparr>, s'))"

text \<open>\<^verbatim>\<open>time_t banExpirationDate\<close> is a signed integer, written in decimal.\<close>

definition expiration_clause :: "int \<Rightarrow> string" where
  "expiration_clause banExpirationDate =
     (if banExpirationDate \<noteq> - 1
      then '', expiration_date = FROM_UNIXTIME('' @ show_int banExpirationDate @ '')''
      else [])"

definition CreateUserBan_query :: "int \<Rightarrow> int \<Rightarrow> string" where
  "CreateUserBan_query userId banExpirationDate =
     ''INSERT INTO userban SET user_id = '' @ show_int userId @
     expiration_clause banExpirationDate"

definition CreateUserBan :: "'s runtime \<Rightarrow> int \<Rightarrow> int \<Rightarrow> 's \<Rightarrow> (failure + int) \<times> 's" where
  "CreateUserBan R userId banExpirationDate =
     try_query R (CreateUserBan_query userId banExpirationDate)
       (\<lambda>m. return (GetAutoGeneratedId m) m)"

definition CreateIpBan_query :: "string \<Rightarrow> int \<Rightarrow> string" where
  "CreateIpBan_query ip banExpirationDate =
     ''INSERT INTO ipban SET ip = '' @ apostrophe # ip @ apostrophe #
     expiration_clause banExpirationDate"

definition CreateIpBan :: "'s runtime \<Rightarrow> string \<Rightarrow> int \<Rightarrow> 's \<Rightarrow> (failure + int) \<times> 's" where
  "CreateIpBan R ip banExpirationDate =
     try_query R (CreateIpBan_query ip banExpirationDate)
       (\<lambda>m. return (GetAutoGeneratedId m) m)"

definition CreateOrUpdateUserIp_query :: "int \<Rightarrow> string \<Rightarrow> string" where
  "CreateOrUpdateUserIp_query userId ip =
     ''INSERT INTO userip SET user_id = '' @ show_int userId @ '',ip = '' @
     apostrophe # ip @ apostrophe # '' ON DUPLICATE KEY UPDATE last_show_up_date = NOW()''"

definition CreateOrUpdateUserIp :: "'s runtime \<Rightarrow> int \<Rightarrow> string \<Rightarrow> 's \<Rightarrow> (failure + unit) \<times> 's" where
  "CreateOrUpdateUserIp R userId ip =
     try_query R (CreateOrUpdateUserIp_query userId ip) (return ())"

definition UpdateUserLastLoginDate_query :: "int \<Rightarrow> string" where
  "UpdateUserLastLoginDate_query userId =
     ''UPDATE user SET last_login_date = NOW() WHERE id = '' @ show_int userId"

definition UpdateUserLastLoginDate :: "'s runtime \<Rightarrow> int \<Rightarrow> 's \<Rightarrow> (failure + unit) \<times> 's" where
  "UpdateUserLastLoginDate R userId =
     try_query R (UpdateUserLastLoginDate_query userId) (return ())"

definition UpdateUserLastLoginServerOnlineDate_query :: "int \<Rightarrow> string" where
  "UpdateUserLastLoginServerOnlineDate_query userId =
     ''UPDATE user SET last_loginserver_online_date = NOW() WHERE id = '' @ show_int userId"

definition UpdateUserLastLoginServerOnlineDate ::
  "'s runtime \<Rightarrow> int \<Rightarrow> 's \<Rightarrow> (failure + unit) \<times> 's" where
  "UpdateUserLastLoginServerOnlineDate R userId =
     try_query R (UpdateUserLastLoginServerOnlineDate_query userId) (return ())"

definition UpdateUserLastGameServerOnlineDate_query :: "int \<Rightarrow> string" where
  "UpdateUserLastGameServerOnlineDate_query userId =
     ''UPDATE user SET last_gameserver_online_date = NOW() WHERE id = '' @ show_int userId"

definition UpdateUserLastGameServerOnlineDate ::
  "'s runtime \<Rightarrow> int \<Rightarrow> 's \<Rightarrow> (failure + unit) \<times> 's" where
  "UpdateUserLastGameServerOnlineDate R userId =
     try_query R (UpdateUserLastGameServerOnlineDate_query userId) (return ())"

definition GetUserPostLoginInfo_query :: "int \<Rightarrow> string" where
  "GetUserPostLoginInfo_query userId =
     ''SELECT is_male, auth, default_character, rank, rank_record, points, code '' @
     ''FROM user WHERE user_id = '' @ show_int userId"

definition GetUserPostLoginInfo ::
  "'s runtime \<Rightarrow> int \<Rightarrow> 's \<Rightarrow> (failure + UserPostLoginInfo) \<times> 's" where
  "GetUserPostLoginInfo R userId =
     try_query R (GetUserPostLoginInfo_query userId)
       (bind (GetValue_name ''is_male'') (\<lambda>v1. bind (lift (AsBool v1)) (\<lambda>isMale.
        bind (GetValue_name ''auth'') (\<lambda>v2. bind (lift (AsInt v2)) (\<lambda>auth'.
        bind (GetValue_name ''default_character'') (\<lambda>v3. bind (lift (AsInt v3)) (\<lambda>defaultCharacter.
        bind (GetValue_name ''rank'') (\<lambda>v4. bind (lift (AsInt v4)) (\<lambda>rank'.
        bind (GetValue_name ''rank_record'') (\<lambda>v5. bind (lift (AsInt v5)) (\<lambda>rankRecord.
        bind (GetValue_name ''points'') (\<lambda>v6. bind (lift (AsInt v6)) (\<lambda>points'.
        bind (GetValue_name ''code'') (\<lambda>v7. bind (lift (AsInt v7)) (\<lambda>code'.
        return \<lparr>is_male = isMale, auth = auth', default_character = defaultCharacter,
                rank = rank', rank_record = rankRecord, points = points',
                code = code'\<rparr>)))))))))))))))"

subsection \<open>The server: reading a statement\<close>

text \<open>
  Modelled from the spec: the MySQL server is outside the repository. The model below
  reads the statement text the operations send, for the statements on the tables
  \<^verbatim>\<open>user\<close>, \<^verbatim>\<open>userban\<close> and \<^verbatim>\<open>ipban\<close> that select or insert, and runs them on the
  schema of section 3 of the specification.
\<close>

datatype token = TWord string | TNum string | TStr string | TSym char

datatype lex_state = Idle | InWord string | InNum string | InStr string

datatype lex_error = Unterminated | NotModelled

definition isword :: "char \<Rightarrow> bool" where
  "isword c = (c \<in> set ''abcdefghijklmnopqrstuvwxyzABCDEFGHIJKLMNOPQRSTUVWXYZ_'')"

definition issym :: "char \<Rightarrow> bool" where
  "issym c = (c \<in> set ''(),='')"

text \<open>What a character starts when no token is open.\<close>

definition start :: "char \<Rightarrow> (lex_state \<times> token list) option" where
  "start c =
     (if c = CHR '' '' then Some (Idle, [])
      else if c = apostrophe then Some (InStr [], [])
      else if isdigit c \<or> c = CHR ''-'' then Some (InNum [c], [])
      else if isword c then Some (InWord [c], [])
      else if issym c then Some (Idle, [TSym c])
      else None)"

definition close_with :: "token \<Rightarrow> char \<Rightarrow> (lex_state \<times> token list) option" where
  "close_with t c = (case start c of None \<Rightarrow> None | Some (st, ts) \<Rightarrow> Some (st, t # ts))"

text \<open>
  One character. A string literal runs to the next apostrophe; a backslash in it (an
  escape sequence), a sign without a digit and any character not listed above are outside
  the model (\<open>None\<close>).
\<close>

fun step :: "lex_state \<Rightarrow> char \<Rightarrow> (lex_state \<times> token list) option" where
  "step Idle c = start c"
| "step (InWord w) c =
     (if isword c \<or> isdigit c then Some (InWord (w @ [c]), []) else close_with (TWord w) c)"
| "step (InNum n) c =
     (if isdigit c then Some (InNum (n @ [c]), [])
      else if n = ''-'' \<or> isword c then None
      else close_with (TNum n) c)"
| "step (InStr t) c =
     (if c = apostrophe then Some (Idle, [TStr t])
      else if c = backslash then None
      else Some (InStr (t @ [c]), []))"

fun lex :: "lex_state \<Rightarrow> string \<Rightarrow> lex_error + token list" where
  "lex st [] =
     (case st of
        Idle \<Rightarrow> Inr []
      | InWord w \<Rightarrow> Inr [TWord w]
      | InNum n \<Rightarrow> if n = ''-'' then Inl NotModelled else Inr [TNum n]
      | InStr t \<Rightarrow> Inl Unterminated)"
| "lex st (c # cs) =
     (case step st c of
        None \<Rightarrow> Inl NotModelled
      | Some (st', ts) \<Rightarrow>
          (case lex st' cs of Inl e \<Rightarrow> Inl e | Inr ts' \<Rightarrow> Inr (ts @ ts')))"

subsection \<open>The server: statements\<close>

datatype literal = LInt int | LStr string

datatype cond = Eq string literal | IsNull string | IsNotNull string

text \<open>
  A select item: \<^verbatim>\<open>NULL AS a\<close>, \<^verbatim>\<open>UNIX_TIMESTAMP(c) AS a\<close> or a column; each with the
  name its column has in the result.
\<close>

datatype item = INull string | IUnixTimestamp string string | ICol string

datatype select = Select "item list" string "cond list" "string option"

datatype assigned = AInt int | AStr string | AFromUnixtime int

datatype statement =
    SelectStmt select
  | UnionLimit select select nat
  | InsertSet string "(string \<times> assigned) list"

fun split_on :: "'a \<Rightarrow> 'a list \<Rightarrow> 'a list list" where
  "split_on sep [] = [[]]"
| "split_on sep (x # xs) =
     (if x = sep then [] # split_on sep xs
      else (case split_on sep xs of [] \<Rightarrow> [[x]] | y # ys \<Rightarrow> (x # y) # ys))"

definition is_as :: "string \<Rightarrow> bool" where
  "is_as w = (w = ''AS'' \<or> w = ''as'')"

definition parse_item :: "token list \<Rightarrow> item option" where
  "parse_item ts =
     (case ts of
        [TWord c] \<Rightarrow> if c = ''NULL'' then Some (INull c) else Some (ICol c)
      | [TWord n, TWord a, TWord alias] \<Rightarrow>
          if n = ''NULL'' \<and> is_as a then Some (INull alias) else None
      | [TWord f, TSym l, TWord c, TSym r, TWord a, TWord alias] \<Rightarrow>
          if f = ''UNIX_TIMESTAMP'' \<and> l = CHR ''('' \<and> r = CHR '')'' \<and> is_as a
          then Some (IUnixTimestamp c alias) else None
      | _ \<Rightarrow> None)"

definition parse_cond :: "token list \<Rightarrow> cond option" where
  "parse_cond ts =
     (case ts of
        [TWord c, TSym e, TNum n] \<Rightarrow>
          if e = CHR ''='' then Some (Eq c (LInt (signed_value n))) else None
      | [TWord c, TSym e, TStr s] \<Rightarrow>
          if e = CHR ''='' then Some (Eq c (LStr s)) else None
      | [TWord c, TWord i, TWord n] \<Rightarrow>
          if i = ''IS'' \<and> n = ''NULL'' then Some (IsNull c) else None
      | [TWord c, TWord i, TWord n, TWord n'] \<Rightarrow>
          if i = ''IS'' \<and> n = ''NOT'' \<and> n' = ''NULL'' then Some (IsNotNull c) else None
      | _ \<Rightarrow> None)"

definition parse_order :: "token list \<Rightarrow> string option option" where
  "parse_order ts =
     (case ts of
        [] \<Rightarrow> Some None
      | [TWord ob, TWord b, TWord c, TWord d] \<Rightarrow>
          if ob = ''ORDER'' \<and> b = ''BY'' \<and> d = ''DESC'' then Some (Some c) else None
      | _ \<Rightarrow> None)"

text \<open>\<^verbatim>\<open>SELECT items FROM table WHERE cond AND ... [ORDER BY column DESC]\<close>.\<close>

definition parse_select :: "token list \<Rightarrow> select option" where
  "parse_select ts =
     (case ts of
        TWord s # ts1 \<Rightarrow>
          (case dropWhile (\<lambda>t. t \<noteq> TWord ''FROM'') ts1 of
             TWord f # TWord tbl # TWord w # ts2 \<Rightarrow>
               (case (those (map parse_item
                               (split_on (TSym (CHR '','')) (takeWhile (\<lambda>t. t \<noteq> TWord ''FROM'') ts1))),
                      those (map parse_cond
                               (split_on (TWord ''AND'') (takeWhile (\<lambda>t. t \<noteq> TWord ''ORDER'') ts2))),
                      parse_order (dropWhile (\<lambda>t. t \<noteq> TWord ''ORDER'') ts2)) of
                  (Some its, Some cs, Some ob) \<Rightarrow>
                    if s = ''SELECT'' \<and> w = ''WHERE'' then Some (Select its tbl cs ob) else None
                | _ \<Rightarrow> None)
           | _ \<Rightarrow> None)
      | _ \<Rightarrow> None)"

text \<open>The tokens between an opening and the matching closing parenthesis at both ends.\<close>

definition unparen :: "token list \<Rightarrow> token list option" where
  "unparen ts =
     (case ts of
        TSym l # body \<Rightarrow>
          (case rev body of
             TSym r # ydob \<Rightarrow> if l = CHR ''('' \<and> r = CHR '')'' then Some (rev ydob) else None
           | _ \<Rightarrow> None)
      | _ \<Rightarrow> None)"

text \<open>\<^verbatim>\<open>(select) UNION (select) LIMIT n\<close>.\<close>

definition parse_union :: "token list \<Rightarrow> statement option" where
  "parse_union ts =
     (case dropWhile (\<lambda>t. t \<noteq> TWord ''UNION'') ts of
        TWord u # right \<Rightarrow>
          (case rev right of
             TNum n # TWord l # thgir \<Rightarrow>
               (case (Option.bind (unparen (takeWhile (\<lambda>t. t \<noteq> TWord ''UNION'') ts)) parse_select,
                      Option.bind (unparen (rev thgir)) parse_select) of
                  (Some s1, Some s2) \<Rightarrow>
                    if l = ''LIMIT'' \<and> 0 \<le> signed_value n
                    then Some (UnionLimit s1 s2 (nat (signed_value n))) else None
                | _ \<Rightarrow> None)
           | _ \<Rightarrow> None)
      | _ \<Rightarrow> None)"

definition parse_assignment :: "token list \<Rightarrow> (string \<times> assigned) option" where
  "parse_assignment ts =
     (case ts of
        [TWord c, TSym e, TNum n] \<Rightarrow>
          if e = CHR ''='' then Some (c, AInt (signed_value n)) else None
      | [TWord c, TSym e, TStr s] \<Rightarrow>
          if e = CHR ''='' then Some (c, AStr s) else None
      | [TWord c, TSym e, TWord f, TSym l, TNum n, TSym r] \<Rightarrow>
          if e = CHR ''='' \<and> f = ''FROM_UNIXTIME'' \<and> l = CHR ''('' \<and> r = CHR '')''
          then Some (c, AFromUnixtime (signed_value n)) else None
      | _ \<Rightarrow> None)"

text \<open>\<^verbatim>\<open>INSERT INTO table SET column = value, ...\<close>.\<close>

definition parse_insert :: "token list \<Rightarrow> statement option" where
  "parse_insert ts =
     (case ts of
        TWord i # TWord into # TWord tbl # TWord set' # ts1 \<Rightarrow>
          (case those (map parse_assignment (split_on (TSym (CHR '','')) ts1)) of
             Some as \<Rightarrow>
               if i = ''INSERT'' \<and> into = ''INTO'' \<and> set' = ''SET''
               then Some (InsertSet tbl as) else None
           | None \<Rightarrow> None)
      | _ \<Rightarrow> None)"

definition parse :: "token list \<Rightarrow> statement option" where
  "parse ts =
     (case ts of
        TWord w # _ \<Rightarrow>
          if w = ''SELECT'' then map_option SelectStmt (parse_select ts)
          else if w = ''INSERT'' then parse_insert ts
          else None
      | TSym c # _ \<Rightarrow> parse_union ts
      | _ \<Rightarrow> None)"

definition read_statement :: "string \<Rightarrow> lex_error + statement" where
  "read_statement q =
     (case lex Idle q of
        Inl e \<Rightarrow> Inl e
      | Inr ts \<Rightarrow> (case parse ts of None \<Rightarrow> Inl NotModelled | Some st \<Rightarrow> Inr st))"

subsection \<open>The server: tables\<close>

text \<open>
  Modelled from the spec: the tables of section 3. A timestamp is kept as its Unix time
  (\<^verbatim>\<open>FROM_UNIXTIME\<close> stores it, \<^verbatim>\<open>UNIX_TIMESTAMP\<close> reads it back), \<^verbatim>\<open>NULL\<close> as \<open>None\<close>.
  Left out: the table \<^verbatim>\<open>userip\<close> and the three last-seen timestamps of \<^verbatim>\<open>user\<close>, which
  only the \<^verbatim>\<open>UPDATE\<close> and upsert statements touch.
\<close>

record user_row =
  u_id :: int
  u_name :: string
  u_password :: string
  u_is_male :: bool
  u_is_deleted :: bool
  u_creation_ip :: "string option"
  u_auth :: int
  u_default_character :: int
  u_rank :: int
  u_rank_record :: int
  u_points :: int
  u_code :: int

record userban_row =
  ub_id :: int
  ub_user_id :: int
  ub_expiration_date :: "int option"

record ipban_row =
  ib_id :: int
  ib_ip :: string
  ib_expiration_date :: "int option"

text \<open>
  The state of the server: the three tables, and one setting. The ban statement writes
  its \<^verbatim>\<open>ORDER BY\<close> inside a member of the \<^verbatim>\<open>UNION\<close> and its \<^verbatim>\<open>LIMIT\<close> outside.
  MySQL's manual says of an \<^verbatim>\<open>ORDER BY\<close> without \<^verbatim>\<open>LIMIT\<close> in a member of a \<^verbatim>\<open>UNION\<close>
  that it is optimized away: the member's rows come as the table is scanned.
  \<open>inner_order_by\<close> is \<open>False\<close> on such a server, and \<open>True\<close> on one that sorts the
  member's rows before the union is formed, as section 4.4.3 of the specification reads
  the statement.
\<close>

record db =
  tbl_user :: "user_row list"
  tbl_userban :: "userban_row list"
  tbl_ipban :: "ipban_row list"
  inner_order_by :: bool

datatype sqlval = SqlNull | SqlInt int | SqlStr string | SqlTime int

datatype coltype = CInt | CStr | CTime

definition table_schema :: "string \<Rightarrow> (string \<times> coltype) list option" where
  "table_schema t =
     (if t = ''user'' then
        Some [(''id'', CInt), (''name'', CStr), (''password'', CStr), (''is_male'', CInt),
              (''is_deleted'', CInt), (''creation_ip'', CStr), (''auth'', CInt),
              (''default_character'', CInt), (''rank'', CInt), (''rank_record'', CInt),
              (''points'', CInt), (''code'', CInt)]
      else if t = ''userban'' then
        Some [(''id'', CInt), (''user_id'', CInt), (''expiration_date'', CTime)]
      else if t = ''ipban'' then
        Some [(''id'', CInt), (''ip'', CStr), (''expiration_date'', CTime)]
      else None)"

type_synonym row = "(string \<times> sqlval) list"

definition bool_val :: "bool \<Rightarrow> sqlval" where
  "bool_val b = SqlInt (if b then 1 else 0)"

definition time_val :: "int option \<Rightarrow> sqlval" where
  "time_val t = (case t of None \<Rightarrow> SqlNull | Some u \<Rightarrow> SqlTime u)"

definition user_view :: "user_row \<Rightarrow> row" where
  "user_view r =
     [(''id'', SqlInt (u_id r)), (''name'', SqlStr (u_name r)),
      (''password'', SqlStr (u_password r)), (''is_male'', bool_val (u_is_male r)),
      (''is_deleted'', bool_val (u_is_deleted r)),
      (''creation_ip'', case u_creation_ip r of None \<Rightarrow> SqlNull | Some a \<Rightarrow> SqlStr a),
      (''auth'', SqlInt (u_auth r)), (''default_character'', SqlInt (u_default_character r)),
      (''rank'', SqlInt (u_rank r)), (''rank_record'', SqlInt (u_rank_record r)),
      (''points'', SqlInt (u_points r)), (''code'', SqlInt (u_code r))]"

definition userban_view :: "userban_row \<Rightarrow> row" where
  "userban_view r =
     [(''id'', SqlInt (ub_id r)), (''user_id'', SqlInt (ub_user_id r)),
      (''expiration_date'', time_val (ub_expiration_date r))]"

definition ipban_view :: "ipban_row \<Rightarrow> row" where
  "ipban_view r =
     [(''id'', SqlInt (ib_id r)), (''ip'', SqlStr (ib_ip r)),
      (''expiration_date'', time_val (ib_expiration_date r))]"

definition table_rows :: "db \<Rightarrow> string \<Rightarrow> row list" where
  "table_rows d t =
     (if t = ''user'' then map user_view (tbl_user d)
      else if t = ''userban'' then map userban_view (tbl_userban d)
      else if t = ''ipban'' then map ipban_view (tbl_ipban d)
      else [])"

definition cell_of :: "row \<Rightarrow> string \<Rightarrow> sqlval" where
  "cell_of r c = (case map_of r c of None \<Rightarrow> SqlNull | Some v \<Rightarrow> v)"

subsection \<open>The server: running a statement\<close>

definition quoted :: "string \<Rightarrow> string" where
  "quoted s = apostrophe # s @ [apostrophe]"

definition unknown_column :: "string \<Rightarrow> string \<Rightarrow> string" where
  "unknown_column c clause = ''Unknown column '' @ quoted c @ '' in '' @ quoted clause"

definition not_modelled :: string where
  "not_modelled = ''(a statement outside the model of the server)''"

definition syntax_error :: string where
  "syntax_error = ''You have an error in your SQL syntax''"

fun lit_val :: "literal \<Rightarrow> sqlval" where
  "lit_val (LInt i) = SqlInt i"
| "lit_val (LStr s) = SqlStr s"

fun lit_type :: "literal \<Rightarrow> coltype" where
  "lit_type (LInt i) = CInt"
| "lit_type (LStr s) = CStr"

fun cond_column :: "cond \<Rightarrow> string" where
  "cond_column (Eq c l) = c"
| "cond_column (IsNull c) = c"
| "cond_column (IsNotNull c) = c"

text \<open>
  A comparison the model runs: a column with a literal of the column's own type, by
  equality of the values (strings character by character, as under a binary collation;
  the collation of the columns is not in the sources).
\<close>

fun cond_typed :: "(string \<times> coltype) list \<Rightarrow> cond \<Rightarrow> bool" where
  "cond_typed sch (Eq c l) = (map_of sch c = Some (lit_type l))"
| "cond_typed sch (IsNull c) = True"
| "cond_typed sch (IsNotNull c) = True"

fun eval_cond :: "row \<Rightarrow> cond \<Rightarrow> bool" where
  "eval_cond r (Eq c l) = (cell_of r c = lit_val l)"
| "eval_cond r (IsNull c) = (cell_of r c = SqlNull)"
| "eval_cond r (IsNotNull c) = (cell_of r c \<noteq> SqlNull)"

fun item_columns :: "item \<Rightarrow> string list" where
  "item_columns (INull a) = []"
| "item_columns (IUnixTimestamp c a) = [c]"
| "item_columns (ICol c) = [c]"

fun item_name :: "item \<Rightarrow> string" where
  "item_name (INull a) = a"
| "item_name (IUnixTimestamp c a) = a"
| "item_name (ICol c) = c"

text \<open>
  An item the model runs: \<^verbatim>\<open>UNIX_TIMESTAMP\<close> of a timestamp column, or a column that is
  not a timestamp.
\<close>

fun item_typed :: "(string \<times> coltype) list \<Rightarrow> item \<Rightarrow> bool" where
  "item_typed sch (INull a) = True"
| "item_typed sch (IUnixTimestamp c a) = (map_of sch c = Some CTime)"
| "item_typed sch (ICol c) = (map_of sch c \<noteq> Some CTime)"

fun eval_item :: "row \<Rightarrow> item \<Rightarrow> sqlval" where
  "eval_item r (INull a) = SqlNull"
| "eval_item r (IUnixTimestamp c a) =
     (case cell_of r c of SqlTime t \<Rightarrow> SqlInt t | _ \<Rightarrow> SqlNull)"
| "eval_item r (ICol c) = cell_of r c"

text \<open>
  \<^verbatim>\<open>ORDER BY c DESC\<close> on a column of the result: larger numbers first, \<^verbatim>\<open>NULL\<close> last;
  rows with equal keys keep their order.
\<close>

fun desc_key :: "sqlval \<Rightarrow> nat \<times> int" where
  "desc_key (SqlInt i) = (0, - i)"
| "desc_key _ = (1, 0)"

fun order_typed :: "sqlval \<Rightarrow> bool" where
  "order_typed (SqlStr s) = False"
| "order_typed _ = True"

definition order_rows :: "string option \<Rightarrow> string list \<Rightarrow> sqlval list list \<Rightarrow> sqlval list list" where
  "order_rows ob names rows =
     (case ob of
        None \<Rightarrow> rows
      | Some c \<Rightarrow> sort_key (\<lambda>row. desc_key (row ! find_position c names)) rows)"

definition first_missing :: "string list \<Rightarrow> (string \<times> coltype) list \<Rightarrow> string option" where
  "first_missing cs sch = find (\<lambda>c. map_of sch c = None) cs"

text \<open>
  A select: the names of the result's columns and its rows, or the server's error
  message.
\<close>

fun eval_select :: "db \<Rightarrow> select \<Rightarrow> string + string list \<times> sqlval list list" where
  "eval_select d (Select its tbl cs ob) =
     (case table_schema tbl of
        None \<Rightarrow> Inl (''Table '' @ quoted tbl @ '' doesn't exist'')
      | Some sch \<Rightarrow>
          (case first_missing (concat (map item_columns its)) sch of
             Some c \<Rightarrow> Inl (unknown_column c ''field list'')
           | None \<Rightarrow>
               (case first_missing (map cond_column cs) sch of
                  Some c \<Rightarrow> Inl (unknown_column c ''where clause'')
                | None \<Rightarrow>
                    let names = map item_name its;
                        rows = map (\<lambda>r. map (eval_item r) its)
                                 (filter (\<lambda>r. list_all (eval_cond r) cs) (table_rows d tbl))
                    in if list_all (item_typed sch) its \<and> list_all (cond_typed sch) cs \<and>
                          (case ob of
                             None \<Rightarrow> True
                           | Some c \<Rightarrow>
                               c \<in> set names \<and>
                               list_all (\<lambda>row. order_typed (row ! find_position c names)) rows)
                       then Inr (names, order_rows ob names rows)
                       else Inl not_modelled)))"

text \<open>The text protocol: a value as the client library hands it out.\<close>

fun render :: "sqlval \<Rightarrow> cell" where
  "render SqlNull = None"
| "render (SqlInt i) = Some (show_int i)"
| "render (SqlStr s) = Some s"
| "render (SqlTime t) = None"

definition result_set :: "string list \<Rightarrow> sqlval list list \<Rightarrow> MYSQL_RES" where
  "result_set names rows =
     \<lparr>field_names = names, data = map (map render) rows, data_cursor = 0\<rparr>"

text \<open>\<^verbatim>\<open>UNION\<close> keeps the first of equal rows.\<close>

definition distinct_first :: "'a list \<Rightarrow> 'a list" where
  "distinct_first xs = rev (remdups (rev xs))"

definition assigned_type :: "assigned \<Rightarrow> coltype" where
  "assigned_type a = (case a of AInt i \<Rightarrow> CInt | AStr s \<Rightarrow> CStr | AFromUnixtime t \<Rightarrow> CTime)"

definition get_int :: "(string \<times> assigned) list \<Rightarrow> string \<Rightarrow> int" where
  "get_int as c = (case map_of as c of Some (AInt i) \<Rightarrow> i | _ \<Rightarrow> 0)"

definition get_str :: "(string \<times> assigned) list \<Rightarrow> string \<Rightarrow> string" where
  "get_str as c = (case map_of as c of Some (AStr s) \<Rightarrow> s | _ \<Rightarrow> [])"

definition get_str_null :: "(string \<times> assigned) list \<Rightarrow> string \<Rightarrow> string option" where
  "get_str_null as c = (case map_of as c of Some (AStr s) \<Rightarrow> Some s | _ \<Rightarrow> None)"

text \<open>
  \<^verbatim>\<open>FROM_UNIXTIME(t)\<close>: the timestamp a column stores, kept as the Unix time it was made
  from; the range of timestamps the server can store is not modelled.
\<close>

definition FROM_UNIXTIME :: "int \<Rightarrow> int option" where
  "FROM_UNIXTIME t = Some t"

definition get_time :: "(string \<times> assigned) list \<Rightarrow> string \<Rightarrow> int option" where
  "get_time as c =
     (case map_of as c of Some (AFromUnixtime t) \<Rightarrow> FROM_UNIXTIME t | _ \<Rightarrow> None)"

text \<open>The id an \<^verbatim>\<open>AUTO_INCREMENT\<close> key gives the next row.\<close>

definition next_id :: "int list \<Rightarrow> int" where
  "next_id ids = (if ids = [] then 1 else Max (set ids) + 1)"

text \<open>
  An insert into one of the three tables. Columns the statement does not set take their
  defaults: \<^verbatim>\<open>NULL\<close> where the column is nullable, zero or the empty string otherwise.
  The unique key on \<^verbatim>\<open>user.name\<close> and the foreign key of \<^verbatim>\<open>userban.user_id\<close> are
  enforced.
\<close>

definition insert_row :: "db \<Rightarrow> string \<Rightarrow> (string \<times> assigned) list \<Rightarrow> reply \<times> db" where
  "insert_row d tbl as =
     (if tbl = ''user'' then
        if get_str as ''name'' \<in> set (map u_name (tbl_user d))
        then (QueryFailed (''Duplicate entry '' @ quoted (get_str as ''name'') @
                '' for key '' @ quoted ''name''), d)
        else
          let new = \<lparr>u_id = next_id (map u_id (tbl_user d)), u_name = get_str as ''name'',
                     u_password = get_str as ''password'',
                     u_is_male = (get_int as ''is_male'' \<noteq> 0),
                     u_is_deleted = (get_int as ''is_deleted'' \<noteq> 0),
                     u_creation_ip = get_str_null as ''creation_ip'',
                     u_auth = get_int as ''auth'',
                     u_default_character = get_int as ''default_character'',
                     u_rank = get_int as ''rank'', u_rank_record = get_int as ''rank_record'',
                     u_points = get_int as ''points'', u_code = get_int as ''code''\<rparr>
          in (Stored None (word_of_int (u_id new)), d\<lparr>tbl_user := tbl_user d @ [new]\<rparr>)
      else if tbl = ''userban'' then
        if get_int as ''user_id'' \<notin> set (map u_id (tbl_user d))
        then (QueryFailed
                ''Cannot add or update a child row: a foreign key constraint fails'', d)
        else
          let new = \<lparr>ub_id = next_id (map ub_id (tbl_userban d)),
                     ub_user_id = get_int as ''user_id'',
                     ub_expiration_date = get_time as ''expiration_date''\<rparr>
          in (Stored None (word_of_int (ub_id new)), d\<lparr>tbl_userban := tbl_userban d @ [new]\<rparr>)
      else
        let new = \<lparr>ib_id = next_id (map ib_id (tbl_ipban d)), ib_ip = get_str as ''ip'',
                   ib_expiration_date = get_time as ''expiration_date''\<rparr>
        in (Stored None (word_of_int (ib_id new)), d\<lparr>tbl_ipban := tbl_ipban d @ [new]\<rparr>))"

text \<open>A member of a \<^verbatim>\<open>UNION\<close>, as the server runs it.\<close>

fun in_union :: "db \<Rightarrow> select \<Rightarrow> select" where
  "in_union d (Select its tbl cs ob) =
     Select its tbl cs (if inner_order_by d then ob else None)"

fun execute :: "db \<Rightarrow> statement \<Rightarrow> reply \<times> db" where
  "execute d (SelectStmt s) =
     (case eval_select d s of
        Inl err \<Rightarrow> (QueryFailed err, d)
      | Inr (names, rows) \<Rightarrow> (Stored (Some (result_set names rows)) 0, d))"
| "execute d (UnionLimit s1 s2 n) =
     (case eval_select d (in_union d s1) of
        Inl err \<Rightarrow> (QueryFailed err, d)
      | Inr (names1, rows1) \<Rightarrow>
          (case eval_select d (in_union d s2) of
             Inl err \<Rightarrow> (QueryFailed err, d)
           | Inr (names2, rows2) \<Rightarrow>
               if length names1 = length names2
               then (Stored (Some (result_set names1
                                     (take n (distinct_first (rows1 @ rows2))))) 0, d)
               else (QueryFailed
                       ''The used SELECT statements have a different number of columns'', d)))"
| "execute d (InsertSet tbl as) =
     (case table_schema tbl of
        None \<Rightarrow> (QueryFailed (''Table '' @ quoted tbl @ '' doesn't exist''), d)
      | Some sch \<Rightarrow>
          (case first_missing (map fst as) sch of
             Some c \<Rightarrow> (QueryFailed (unknown_column c ''field list''), d)
           | None \<Rightarrow>
               if distinct (map fst as) \<and> ''id'' \<notin> set (map fst as) \<and>
                  list_all (\<lambda>(c, a). map_of sch c = Some (assigned_type a)) as
               then insert_row d tbl as
               else (QueryFailed not_modelled, d)))"

text \<open>
  The server behind the session: the statement is read and run. A text that ends inside
  a string literal is a syntax error; a text the model does not read is answered with an
  error of its own, on which nothing below relies.
\<close>

definition mysql_server :: "db \<Rightarrow> string \<Rightarrow> reply \<times> db" where
  "mysql_server d q =
     (case read_statement q of
        Inl Unterminated \<Rightarrow> (QueryFailed syntax_error, d)
      | Inl NotModelled \<Rightarrow> (QueryFailed not_modelled, d)
      | Inr st \<Rightarrow> execute d st)"

definition on_server :: "(string \<Rightarrow> string) \<Rightarrow> db runtime" where
  "on_server w = \<lparr>mysql_query = mysql_server, exception_what = w\<rparr>"

subsection \<open>Words of the specification\<close>

text \<open>
  A string the statements can carry between apostrophes as it is: the file escapes
  nothing, so an apostrophe or a backslash in it would change the statement, and a NUL
  would end it.
\<close>

definition plain :: "string \<Rightarrow> bool" where
  "plain s = (apostrophe \<notin> set s \<and> backslash \<notin> set s \<and> CHR 0x00 \<notin> set s)"

definition fits_int :: "int \<Rightarrow> bool" where
  "fits_int i = (INT_MIN \<le> i \<and> i \<le> INT_MAX)"

text \<open>The expiration dates of the ban rows that match a subject, in the table's order.\<close>

definition ip_bans :: "db \<Rightarrow> string \<Rightarrow> int option list" where
  "ip_bans d ip = map ib_expiration_date (filter (\<lambda>r. ib_ip r = ip) (tbl_ipban d))"

definition user_bans :: "db \<Rightarrow> int \<Rightarrow> int option list" where
  "user_bans d userId =
     map ub_expiration_date (filter (\<lambda>r. ub_user_id r = userId) (tbl_userban d))"

text \<open>
  Ban resolution as the specification words it (section 4.4.3): \<open>- 1\<close> if any matching
  row has no expiration date, otherwise the largest expiration date if rows exist,
  otherwise \<open>0\<close>.
\<close>

definition ban_resolution :: "int option list \<Rightarrow> int" where
  "ban_resolution es =
     (if None \<in> set es then - 1
      else if es = [] then 0
      else Max (set [t. Some t \<leftarrow> es]))"

definition timestamps_fit :: "int option list \<Rightarrow> bool" where
  "timestamps_fit es = list_all fits_int [t. Some t \<leftarrow> es]"

text \<open>
  What the ban statement returns, in terms of the expiration dates \<open>es\<close> of the rows that
  match the subject, in the table's order: the rows of its first select, the rows of its
  second select, sorted or not, and the one row the \<^verbatim>\<open>UNION\<close> and \<^verbatim>\<open>LIMIT 1\<close> leave.
\<close>

definition null_rows :: "int option list \<Rightarrow> sqlval list list" where
  "null_rows es = map (\<lambda>e. [SqlNull]) (filter (\<lambda>e. e = None) es)"

definition timed_rows :: "bool \<Rightarrow> int option list \<Rightarrow> sqlval list list" where
  "timed_rows ob es =
     (let rows = map (\<lambda>e. [case e of None \<Rightarrow> SqlNull | Some t \<Rightarrow> SqlInt t])
                   (filter (\<lambda>e. e \<noteq> None) es)
      in if ob then sort_key (\<lambda>row. desc_key (row ! 0)) rows else rows)"

definition ban_rows :: "bool \<Rightarrow> int option list \<Rightarrow> sqlval list list" where
  "ban_rows ob es = take 1 (distinct_first (null_rows es @ timed_rows ob es))"

subsection \<open>Database states used in examples\<close>

definition empty_db :: db where
  "empty_db = \<lparr>tbl_user = [], tbl_userban = [], tbl_ipban = [], inner_order_by = False\<rparr>"

text \<open>A row of \<^verbatim>\<open>user\<close> as an insert of the five columns \<^verbatim>\<open>CreateUser\<close> names leaves it.\<close>

definition new_user :: "int \<Rightarrow> string \<Rightarrow> string \<Rightarrow> bool \<Rightarrow> string option \<Rightarrow> user_row" where
  "new_user i n p m a =
     \<lparr>u_id = i, u_name = n, u_password = p, u_is_male = m, u_is_deleted = False,
      u_creation_ip = a, u_auth = 0, u_default_character = 0, u_rank = 0, u_rank_record = 0,
      u_points = 0, u_code = 0\<rparr>"

definition db_alice :: db where
  "db_alice = empty_db\<lparr>tbl_user := [new_user 1 ''alice'' ''H'' True (Some [])]\<rparr>"

text \<open>A table whose key has reached the largest \<^verbatim>\<open>int\<close>.\<close>

definition db_full :: db where
  "db_full = empty_db\<lparr>tbl_user := [new_user 2147483647 ''alice'' ''H'' True (Some [])]\<rparr>"

text \<open>
  Two users; a permanent and a timed ban on the first, two timed bans on the second; two
  timed bans on one address, and a permanent ban on a subject with apostrophes in it.
\<close>

definition db_bans :: db where
  "db_bans =
     \<lparr>tbl_user = [new_user 1 ''alice'' ''H'' True (Some []), new_user 2 ''bob'' ''K'' False (Some [])],
      tbl_userban =
        [\<lparr>ub_id = 1, ub_user_id = 1, ub_expiration_date = None\<rparr>,
         \<lparr>ub_id = 2, ub_user_id = 1, ub_expiration_date = Some 2000000000\<rparr>,
         \<lparr>ub_id = 3, ub_user_id = 2, ub_expiration_date = Some 1700000000\<rparr>,
         \<lparr>ub_id = 4, ub_user_id = 2, ub_expiration_date = Some 1800000000\<rparr>],
      tbl_ipban =
        [\<lparr>ib_id = 1, ib_ip = ''10.0.0.2'', ib_expiration_date = Some 1700000000\<rparr>,
         \<lparr>ib_id = 2, ib_ip = ''10.0.0.2'', ib_expiration_date = Some 1800000000\<rparr>,
         \<lparr>ib_id = 3, ib_ip = ''a' AND ip = 'b'', ib_expiration_date = None\<rparr>],
      inner_order_by = False\<rparr>"

section \<open>Proofs\<close>

subsection \<open>Decimal output read back\<close>

lemma digit_cases:
  "d < 10 \<Longrightarrow> d = 0 \<or> d = 1 \<or> d = 2 \<or> d = 3 \<or> d = 4 \<or> d = 5 \<or> d = 6 \<or> d = 7 \<or> d = 8 \<or> d = (9::nat)"
  by arith

lemma isdigit_digit_char: "d < 10 \<Longrightarrow> isdigit (digit_char d)"
  using digit_cases [of d] by (auto simp: isdigit_def digit_char_def)

lemma digit_val_digit_char: "d < 10 \<Longrightarrow> digit_val (digit_char d) = int d"
  using digit_cases [of d] by (auto simp: digit_val_def digit_char_def)

lemma digits_value_show_nat:
  "digits_value acc (show_nat n @ rest) =
     digits_value (acc * 10 ^ length (show_nat n) + int n) rest"
proof (induction n arbitrary: acc rest rule: show_nat.induct)
  case (1 n)
  show ?case
  proof (cases "n < 10")
    case True
    then show ?thesis
      by (simp add: show_nat.simps [of n] isdigit_digit_char digit_val_digit_char mult.commute)
  next
    case False
    have d: "n mod 10 < 10" by simp
    have split: "int n = 10 * int (n div 10) + int (n mod 10)"
      by presburger
    from False have "show_nat n = show_nat (n div 10) @ [digit_char (n mod 10)]"
      by (simp add: show_nat.simps [of n])
    moreover have
      "digits_value acc (show_nat (n div 10) @ digit_char (n mod 10) # rest) =
         digits_value (acc * 10 ^ length (show_nat (n div 10)) + int (n div 10))
           (digit_char (n mod 10) # rest)"
      using "1.IH" [OF False] .
    ultimately show ?thesis
      using d split
      by (simp add: isdigit_digit_char digit_val_digit_char algebra_simps del: of_nat_mod of_nat_div)
  qed
qed

lemma digits_value_show_nat_all: "digits_value 0 (show_nat n) = int n"
  using digits_value_show_nat [of 0 n "[]"] by simp

lemma show_nat_digits: "c \<in> set (show_nat n) \<Longrightarrow> isdigit c"
proof (induction n rule: show_nat.induct)
  case (1 n)
  then show ?case
    by (cases "n < 10") (auto simp: show_nat.simps [of n] isdigit_digit_char)
qed

lemma show_nat_not_Nil: "show_nat n \<noteq> []"
  by (cases "n < 10") (simp_all add: show_nat.simps [of n])

lemma isdigit_simps:
  "\<not> isdigit (CHR ''-'')" "\<not> isdigit (CHR ''+'')" "\<not> isdigit (CHR '' '')"
  "\<not> isdigit apostrophe" "\<not> isdigit backslash" "\<not> isdigit (CHR '')'')"
  by (simp_all add: isdigit_def)

lemma isdigit_not_space: "isdigit c \<Longrightarrow> \<not> isspace c"
  by (auto simp: isdigit_def isspace_def)

lemma hd_show_nat_digit: "isdigit (hd (show_nat n))"
  using show_nat_digits [of "hd (show_nat n)" n] show_nat_not_Nil [of n] by simp

lemma signed_value_show_int: "signed_value (show_int i) = i"
proof (cases "i < 0")
  case True
  then show ?thesis
    by (simp add: signed_value_def show_int_def digits_value_show_nat_all)
next
  case False
  obtain c cs where cs: "show_nat (nat i) = c # cs"
    using show_nat_not_Nil [of "nat i"] by (cases "show_nat (nat i)") auto
  with hd_show_nat_digit [of "nat i"] have "isdigit c" by simp
  then have "c \<noteq> CHR ''-''" "c \<noteq> CHR ''+''"
    using isdigit_simps by auto
  with False cs digits_value_show_nat_all [of "nat i"] show ?thesis
    by (simp add: signed_value_def show_int_def)
qed

lemma dropWhile_isspace_show_int: "dropWhile isspace (show_int i) = show_int i"
proof -
  obtain c cs where cs: "show_nat (nat i) = c # cs"
    using show_nat_not_Nil [of "nat i"] by (cases "show_nat (nat i)") auto
  with hd_show_nat_digit [of "nat i"] have "\<not> isspace c"
    by (simp add: isdigit_not_space)
  with cs show ?thesis
    by (simp add: show_int_def isspace_def)
qed

lemma atoi_show_int:
  "INT_MIN \<le> i \<Longrightarrow> i \<le> INT_MAX \<Longrightarrow> atoi (show_int i) = Some i"
  by (simp add: atoi_def dropWhile_isspace_show_int signed_value_show_int)

subsection \<open>The casts to \<^verbatim>\<open>int\<close>\<close>

lemma int_of_ulonglong_mod:
  "int_of_ulonglong w = (uint w + 2 ^ 31) mod 2 ^ 32 - 2 ^ 31"
proof -
  have "sint (ucast w :: 32 word) = signed_take_bit 31 (uint w)"
    by (simp add: sint_uint unsigned_ucast_eq signed_take_bit_take_bit)
  then show ?thesis
    by (simp add: int_of_ulonglong_def signed_take_bit_eq_take_bit_shift take_bit_eq_mod)
qed

lemma int_of_ulonglong_small:
  assumes "0 \<le> i" and "i \<le> INT_MAX"
  shows "int_of_ulonglong (word_of_int i) = i"
proof -
  have "uint (word_of_int i :: 64 word) = i"
    using assms by (simp add: uint_word_of_int INT_MAX_def take_bit_eq_mod)
  then show ?thesis
    using assms by (simp add: int_of_ulonglong_mod INT_MAX_def)
qed

subsection \<open>One round trip\<close>

lemma c_str_c_str: "c_str (c_str q) = c_str q"
  by (simp add: c_str_def takeWhile_idem)

lemma c_str_plain: "CHR 0x00 \<notin> set q \<Longrightarrow> c_str q = q"
  by (simp add: c_str_def takeWhile_eq_all_conv) blast

lemma try_query_Stored:
  "mysql_query R s (c_str q) = (Stored r i, s') \<Longrightarrow>
   try_query R q body s =
     (catch_exception (exception_what R) q (fst (body (MysqlResult_new i r))), s')"
  by (simp add: try_query_def ExecuteQuery_stream_def ExecuteQuery_def ExecuteQueryUnsafe_def
      c_str_c_str)

lemma try_query_QueryFailed:
  "mysql_query R s (c_str q) = (QueryFailed err, s') \<Longrightarrow>
   try_query R q body s =
     (Inl (QueryException_new q (Some (exception_what R
        (''An error occurred when storing a result from a MySQL query: '' @ err)))), s')"
  by (simp add: try_query_def ExecuteQuery_stream_def ExecuteQuery_def ExecuteQueryUnsafe_def
      c_str_c_str catch_exception_def)

lemma GetAutoGeneratedId_new:
  "GetAutoGeneratedId (MysqlResult_new i r) = int_of_ulonglong i"
  by (simp add: GetAutoGeneratedId_def MysqlResult_new_def split: option.split)

lemma insert_returns_id:
  "mysql_query R s (c_str q) = (Stored r i, s') \<Longrightarrow>
   try_query R q (\<lambda>m. return (GetAutoGeneratedId m) m) s = (Inr (int_of_ulonglong i), s')"
  by (simp add: try_query_Stored GetAutoGeneratedId_new return_def catch_exception_def)

subsection \<open>The accessors of a result\<close>

text \<open>
  C8. The shorthands of \<^verbatim>\<open>GetValue\<close>: with one argument, a column index or a column
  name, it is \<^verbatim>\<open>GetValue(0, column)\<close>; with none it is \<^verbatim>\<open>GetValue(0, 0)\<close>. Both
  sides give the same outcome, a value or the same exception, and leave the result object
  in the same state.
\<close>

theorem GetValue_shorthands:
  "GetValue_index columnIndex m = GetValue_row_index 0 columnIndex m \<and>
   GetValue_name columnName m = GetValue_row_name 0 columnName m \<and>
   GetValue m = GetValue_row_index 0 0 m"
  by (simp add: GetValue_index_def GetValue_name_def GetValue_row_name_def GetValue_def bind_def
      split: prod.splits sum.splits)

text \<open>
  C9. \<^verbatim>\<open>GetAutoGeneratedId\<close> returns the stored id of every result and throws nothing,
  also on a null result (one with no result set), where \<^verbatim>\<open>GetRowCount\<close> and every
  \<^verbatim>\<open>GetValue\<close> throw a \<^verbatim>\<open>logic_error\<close>. So when the server answers an \<^verbatim>\<open>INSERT\<close> with
  no result set, \<^verbatim>\<open>CreateUser\<close>, \<^verbatim>\<open>CreateUserBan\<close> and \<^verbatim>\<open>CreateIpBan\<close> return the id.
\<close>

theorem GetAutoGeneratedId_on_null_result:
  "GetAutoGeneratedId m = autoGeneratedId m \<and>
   GetAutoGeneratedId (MysqlResult_new insert_id None) = int_of_ulonglong insert_id \<and>
   res (MysqlResult_new insert_id None) = None \<and>
   GetRowCount (m\<lparr>res := None\<rparr>) =
     Inl (logic_error ''Cannot retrieve the row count because the result is null.'') \<and>
   fst (GetValue_row_index rowIndex columnIndex (m\<lparr>res := None\<rparr>)) =
     Inl (logic_error ''Cannot retrieve a value because the result is null.'') \<and>
   fst (GetValue_index columnIndex (m\<lparr>res := None\<rparr>)) =
     Inl (logic_error ''Cannot retrieve a value because the result is null.'') \<and>
   fst (GetValue (m\<lparr>res := None\<rparr>)) =
     Inl (logic_error ''Cannot retrieve a value because the result is null.'') \<and>
   fst (GetValue_row_name rowIndex columnName (m\<lparr>res := None\<rparr>)) =
     Inl (logic_error ''Cannot retrieve the name of a column because the result is null.'') \<and>
   fst (GetValue_name columnName (m\<lparr>res := None\<rparr>)) =
     Inl (logic_error ''Cannot retrieve the name of a column because the result is null.'') \<and>
   (mysql_query R s (c_str (CreateUser_query name password isMale creationIp)) =
      (Stored None insert_id, s') \<longrightarrow>
    CreateUser R name password isMale creationIp s = (Inr (int_of_ulonglong insert_id), s')) \<and>
   (mysql_query R s (c_str (CreateUserBan_query userId banExpirationDate)) =
      (Stored None insert_id, s') \<longrightarrow>
    CreateUserBan R userId banExpirationDate s = (Inr (int_of_ulonglong insert_id), s')) \<and>
   (mysql_query R s (c_str (CreateIpBan_query ip banExpirationDate)) = (Stored None insert_id, s') \<longrightarrow>
    CreateIpBan R ip banExpirationDate s = (Inr (int_of_ulonglong insert_id), s'))"
proof (intro conjI impI)
  show "GetAutoGeneratedId m = autoGeneratedId m"
    by (simp add: GetAutoGeneratedId_def)
  show "GetAutoGeneratedId (MysqlResult_new insert_id None) = int_of_ulonglong insert_id"
    by (rule GetAutoGeneratedId_new)
qed (simp_all add: GetRowCount_def
      GetValue_row_index_def GetValue_index_def GetValue_def GetValue_row_name_def
      GetValue_name_def FindColumnIndex_def bind_def MysqlResult_new_def
      CreateUser_def CreateUserBan_def CreateIpBan_def insert_returns_id)

lemma alice_inserted:
  "mysql_query (on_server id) empty_db (c_str (CreateUser_query ''alice'' ''H'' True [])) =
     (Stored None 1, db_alice)"
  by code_simp

lemma alice_banned:
  "mysql_query (on_server id) db_alice (c_str (CreateUserBan_query 1 (- 1))) =
     (Stored None 1,
      db_alice\<lparr>tbl_userban := [\<lparr>ub_id = 1, ub_user_id = 1, ub_expiration_date = None\<rparr>]\<rparr>)"
  by code_simp

lemma ip_banned:
  "mysql_query (on_server id) db_alice (c_str (CreateIpBan_query ''10.0.0.1'' 1800000000)) =
     (Stored None 1,
      db_alice\<lparr>tbl_ipban :=
        [\<lparr>ib_id = 1, ib_ip = ''10.0.0.1'', ib_expiration_date = Some 1800000000\<rparr>]\<rparr>)"
  by code_simp

theorem GetAutoGeneratedId_on_null_result_witness:
  "CreateUser (on_server id) ''alice'' ''H'' True [] empty_db = (Inr 1, db_alice) \<and>
   CreateUserBan (on_server id) 1 (- 1) db_alice =
     (Inr 1,
      db_alice\<lparr>tbl_userban := [\<lparr>ub_id = 1, ub_user_id = 1, ub_expiration_date = None\<rparr>]\<rparr>) \<and>
   CreateIpBan (on_server id) ''10.0.0.1'' 1800000000 db_alice =
     (Inr 1,
      db_alice\<lparr>tbl_ipban :=
        [\<lparr>ib_id = 1, ib_ip = ''10.0.0.1'', ib_expiration_date = Some 1800000000\<rparr>]\<rparr>)"
proof -
  have one: "int_of_ulonglong 1 = 1"
    by (simp add: int_of_ulonglong_def)
  show ?thesis
    using alice_inserted alice_banned ip_banned one
      GetAutoGeneratedId_on_null_result [where R = "on_server id" and insert_id = 1
        and s = empty_db and name = "''alice''" and password = "''H''" and isMale = True
        and creationIp = "[]" and s' = db_alice]
      GetAutoGeneratedId_on_null_result [where R = "on_server id" and insert_id = 1
        and s = db_alice and userId = 1 and banExpirationDate = "- 1"
        and s' = "db_alice\<lparr>tbl_userban :=
                    [\<lparr>ub_id = 1, ub_user_id = 1, ub_expiration_date = None\<rparr>]\<rparr>"]
      GetAutoGeneratedId_on_null_result [where R = "on_server id" and insert_id = 1
        and s = db_alice and ip = "''10.0.0.1''" and banExpirationDate = 1800000000
        and s' = "db_alice\<lparr>tbl_ipban :=
                    [\<lparr>ib_id = 1, ib_ip = ''10.0.0.1'',
                      ib_expiration_date = Some 1800000000\<rparr>]\<rparr>"]
    by simp
qed

subsection \<open>The generated id is narrowed\<close>

text \<open>
  C10. The id that \<^verbatim>\<open>CreateUser\<close>, \<^verbatim>\<open>CreateUserBan\<close> and \<^verbatim>\<open>CreateIpBan\<close> return is
  \<^verbatim>\<open>(int)mysql_insert_id(mysql)\<close>: whenever the statement goes through, with the 64-bit
  unsigned insert id \<open>i\<close>, the result is \<open>i\<close> modulo \<open>2 ^ 32\<close> read as a signed 32-bit
  number, that is \<open>(i + 2 ^ 31) mod 2 ^ 32 - 2 ^ 31\<close>. It is \<open>i\<close> itself below \<open>2 ^ 31\<close> and
  negative from \<open>2 ^ 31\<close> to \<open>2 ^ 32 - 1\<close>.
\<close>

theorem generated_id_narrowed:
  "(mysql_query R s (c_str (CreateUser_query name password isMale creationIp)) = (Stored r i, s') \<longrightarrow>
      CreateUser R name password isMale creationIp s = (Inr (int_of_ulonglong i), s')) \<and>
   (mysql_query R s (c_str (CreateUserBan_query userId banExpirationDate)) = (Stored r i, s') \<longrightarrow>
      CreateUserBan R userId banExpirationDate s = (Inr (int_of_ulonglong i), s')) \<and>
   (mysql_query R s (c_str (CreateIpBan_query ip banExpirationDate)) = (Stored r i, s') \<longrightarrow>
      CreateIpBan R ip banExpirationDate s = (Inr (int_of_ulonglong i), s')) \<and>
   int_of_ulonglong i = (uint i + 2 ^ 31) mod 2 ^ 32 - 2 ^ 31 \<and>
   (uint i < 2 ^ 31 \<longrightarrow> int_of_ulonglong i = uint i) \<and>
   (2 ^ 31 \<le> uint i \<and> uint i < 2 ^ 32 \<longrightarrow> int_of_ulonglong i = uint i - 2 ^ 32)"
proof (intro conjI impI)
  show "int_of_ulonglong i = (uint i + 2 ^ 31) mod 2 ^ 32 - 2 ^ 31"
    by (rule int_of_ulonglong_mod)
  show "int_of_ulonglong i = uint i" if "uint i < 2 ^ 31"
    using that by (simp add: int_of_ulonglong_mod)
  show "int_of_ulonglong i = uint i - 2 ^ 32" if "2 ^ 31 \<le> uint i \<and> uint i < 2 ^ 32"
  proof -
    have "(uint i + 2 ^ 31) mod 2 ^ 32 = uint i + 2 ^ 31 - 2 ^ 32"
      using that by (simp add: mod_pos_geq)
    then show ?thesis
      by (simp add: int_of_ulonglong_mod)
  qed
qed (simp_all add: CreateUser_def CreateUserBan_def CreateIpBan_def insert_returns_id)

lemma bob_inserted:
  "mysql_query (on_server id) db_full (c_str (CreateUser_query ''bob'' ''H'' True [])) =
     (Stored None 2147483648,
      db_full\<lparr>tbl_user := tbl_user db_full @ [new_user 2147483648 ''bob'' ''H'' True (Some [])]\<rparr>)"
  by code_simp

theorem generated_id_narrowed_witness:
  "CreateUser (on_server id) ''alice'' ''H'' True [] empty_db = (Inr 1, db_alice) \<and>
   CreateUser (on_server id) ''bob'' ''H'' True [] db_full =
     (Inr (- 2147483648),
      db_full\<lparr>tbl_user := tbl_user db_full @ [new_user 2147483648 ''bob'' ''H'' True (Some [])]\<rparr>) \<and>
   CreateUserBan (on_server id) 1 (- 1) db_alice =
     (Inr 1,
      db_alice\<lparr>tbl_userban := [\<lparr>ub_id = 1, ub_user_id = 1, ub_expiration_date = None\<rparr>]\<rparr>) \<and>
   CreateIpBan (on_server id) ''10.0.0.1'' 1800000000 db_alice =
     (Inr 1,
      db_alice\<lparr>tbl_ipban :=
        [\<lparr>ib_id = 1, ib_ip = ''10.0.0.1'', ib_expiration_date = Some 1800000000\<rparr>]\<rparr>)"
proof -
  have one: "int_of_ulonglong 1 = 1" "uint (1 :: 64 word) < 2 ^ 31"
    by (simp_all add: int_of_ulonglong_def)
  have big: "(2 :: int) ^ 31 \<le> uint (2147483648 :: 64 word) \<and> uint (2147483648 :: 64 word) < 2 ^ 32"
    "uint (2147483648 :: 64 word) - 2 ^ 32 = - 2147483648"
    by simp_all
  show ?thesis
    using alice_inserted bob_inserted alice_banned ip_banned one big
      generated_id_narrowed [where R = "on_server id" and i = 1 and r = None
        and s = empty_db and name = "''alice''" and password = "''H''" and isMale = True
        and creationIp = "[]" and s' = db_alice]
      generated_id_narrowed [where R = "on_server id" and i = 2147483648 and r = None
        and s = db_full and name = "''bob''" and password = "''H''" and isMale = True
        and creationIp = "[]"
        and s' = "db_full\<lparr>tbl_user := tbl_user db_full @
                    [new_user 2147483648 ''bob'' ''H'' True (Some [])]\<rparr>"]
      generated_id_narrowed [where R = "on_server id" and i = 1 and r = None
        and s = db_alice and userId = 1 and banExpirationDate = "- 1"
        and s' = "db_alice\<lparr>tbl_userban :=
                    [\<lparr>ub_id = 1, ub_user_id = 1, ub_expiration_date = None\<rparr>]\<rparr>"]
      generated_id_narrowed [where R = "on_server id" and i = 1 and r = None
        and s = db_alice and ip = "''10.0.0.1''" and banExpirationDate = 1800000000
        and s' = "db_alice\<lparr>tbl_ipban :=
                    [\<lparr>ib_id = 1, ib_ip = ''10.0.0.1'',
                      ib_expiration_date = Some 1800000000\<rparr>]\<rparr>"]
    by simp
qed

subsection \<open>Reading the statements the operations send\<close>

lemma lex_InStr:
  "apostrophe \<notin> set t \<Longrightarrow> backslash \<notin> set t \<Longrightarrow>
   lex (InStr acc) (t @ apostrophe # rest) =
     (case lex Idle rest of Inl e \<Rightarrow> Inl e | Inr ts \<Rightarrow> Inr (TStr (acc @ t) # ts))"
  by (induction t arbitrary: acc) (auto split: sum.splits)

lemma case_sum_Nil_append [simp]:
  "(case x of Inl e \<Rightarrow> Inl e | Inr ts \<Rightarrow> Inr ([] @ ts)) = x"
  by (simp split: sum.split)

lemma lex_InNum_digits:
  "\<forall>c\<in>set ds. isdigit c \<Longrightarrow> lex (InNum n) (ds @ rest) = lex (InNum (n @ ds)) rest"
  by (induction ds arbitrary: n) auto

lemma show_int_not_minus: "show_int i \<noteq> ''-''"
  using show_nat_not_Nil [of "nat (- i)"] hd_show_nat_digit [of "nat i"]
  by (auto simp: show_int_def isdigit_def)

lemma start_digit: "isdigit c \<Longrightarrow> start c = Some (InNum [c], [])"
  by (auto simp: start_def isdigit_def)

lemma start_minus: "start (CHR ''-'') = Some (InNum ''-'', [])"
  by (simp add: start_def)

lemma lex_show_int: "lex Idle (show_int i @ rest) = lex (InNum (show_int i)) rest"
proof (cases "i < 0")
  case True
  then show ?thesis
    using lex_InNum_digits [of "show_nat (nat (- i))" "''-''" rest] show_nat_digits
    by (simp add: show_int_def start_minus)
next
  case False
  obtain c cs where cs: "show_nat (nat i) = c # cs"
    using show_nat_not_Nil [of "nat i"] by (cases "show_nat (nat i)") auto
  then have "isdigit c" "\<forall>c\<in>set cs. isdigit c"
    using show_nat_digits [of _ "nat i"] by auto
  then show ?thesis
    using False cs lex_InNum_digits [of cs "[c]" rest]
    by (simp add: show_int_def start_digit)
qed

lemmas lex_simps = start_def close_with_def isword_def isdigit_def issym_def lex_InStr
  lex_show_int show_int_not_minus

lemmas parse_simps = read_statement_def parse_def parse_select_def parse_union_def
  parse_insert_def parse_item_def parse_cond_def parse_order_def parse_assignment_def
  unparen_def is_as_def signed_value_show_int

lemma read_GetUserId_query:
  "plain n \<Longrightarrow>
   read_statement (GetUserId_query n) =
     Inr (SelectStmt (Select [ICol ''id''] ''user'' [Eq ''name'' (LStr n)] None))"
  by (simp add: plain_def GetUserId_query_def lex_simps parse_simps)

lemma read_GetUserLoginInfo_password_query:
  "read_statement (GetUserLoginInfo_password_query i) =
     Inr (SelectStmt (Select [ICol ''password'', ICol ''is_deleted''] ''user''
        [Eq ''id'' (LInt i)] None))"
  using lex_show_int [of i "[]"]
  by (simp add: GetUserLoginInfo_password_query_def lex_simps parse_simps)

lemma read_GetUserPostLoginInfo_query:
  "read_statement (GetUserPostLoginInfo_query i) =
     Inr (SelectStmt (Select [ICol ''is_male'', ICol ''auth'', ICol ''default_character'',
        ICol ''rank'', ICol ''rank_record'', ICol ''points'', ICol ''code''] ''user''
        [Eq ''user_id'' (LInt i)] None))"
  using lex_show_int [of i "[]"]
  by (simp add: GetUserPostLoginInfo_query_def lex_simps parse_simps)

lemma show_int_no_NUL: "CHR 0x00 \<notin> set (show_int i)"
  using show_nat_digits [of "CHR 0x00"] by (auto simp: show_int_def isdigit_def)

lemma c_str_queries:
  "plain n \<Longrightarrow> c_str (GetUserId_query n) = GetUserId_query n"
  "c_str (GetUserLoginInfo_password_query i) = GetUserLoginInfo_password_query i"
  "c_str (GetUserPostLoginInfo_query i) = GetUserPostLoginInfo_query i"
  "c_str (GetUserLoginInfo_ban_query i) = GetUserLoginInfo_ban_query i"
  "plain ip \<Longrightarrow> c_str (GetIpBanInfo_query ip) = GetIpBanInfo_query ip"
  "c_str (CreateUserBan_query i e) = CreateUserBan_query i e"
  "plain ip \<Longrightarrow> c_str (CreateIpBan_query ip e) = CreateIpBan_query ip e"
  "plain name \<Longrightarrow> plain password \<Longrightarrow>
   c_str (CreateUser_query name password isMale creationIp) =
     CreateUser_query name password isMale creationIp"
  by (rule c_str_plain;
      simp add: plain_def show_int_no_NUL GetUserId_query_def GetUserLoginInfo_password_query_def
        GetUserPostLoginInfo_query_def GetUserLoginInfo_ban_query_def GetIpBanInfo_query_def
        CreateUserBan_query_def CreateIpBan_query_def CreateUser_query_def
        expiration_clause_def show_bool_def)+

subsection \<open>The server's replies\<close>

lemmas run_simps = mysql_server_def table_schema_def first_missing_def table_rows_def
  user_view_def userban_view_def ipban_view_def cell_of_def order_rows_def
  filter_map comp_def bool_val_def time_val_def

lemma password_query_reply:
  "mysql_server d (GetUserLoginInfo_password_query i) =
     (Stored (Some (result_set [''password'', ''is_deleted'']
        (map (\<lambda>r. [SqlStr (u_password r), bool_val (u_is_deleted r)])
           (filter (\<lambda>r. u_id r = i) (tbl_user d))))) 0, d)"
  by (simp add: read_GetUserLoginInfo_password_query run_simps)

lemma post_login_query_reply:
  "mysql_server d (GetUserPostLoginInfo_query i) =
     (QueryFailed (unknown_column ''user_id'' ''where clause''), d)"
  by (simp add: read_GetUserPostLoginInfo_query run_simps)

lemma user_id_query_reply:
  "plain n \<Longrightarrow>
   mysql_server d (GetUserId_query n) =
     (Stored (Some (result_set [''id'']
        (map (\<lambda>r. [SqlInt (u_id r)]) (filter (\<lambda>r. u_name r = n) (tbl_user d))))) 0, d)"
  by (simp add: read_GetUserId_query run_simps)

subsection \<open>\<^verbatim>\<open>GetUserLoginInfo\<close> and \<^verbatim>\<open>GetUserPostLoginInfo\<close>\<close>

lemma result_set_sel:
  "field_names (result_set names rows) = names"
  "data (result_set names rows) = map (map render) rows"
  "data_cursor (result_set names rows) = 0"
  by (simp_all add: result_set_def)

lemma new_result_two_columns:
  "MysqlResult_new i (Some (result_set [a, b] rows)) =
     \<lparr>res = Some (result_set [a, b] rows),
      rowCount = int_of_ulonglong (of_nat (length rows)), columnCount = 2,
      columnNames = [], fetchedRows = [], autoGeneratedId = int_of_ulonglong i\<rparr>"
  by (simp add: MysqlResult_new_def mysql_num_rows_def mysql_num_fields_def result_set_def
      int_of_uint_def)

lemma user_column_not_found:
  "fst (GetValue_name ''user'' (MysqlResult_new i (Some (result_set [''password'', ''is_deleted''] rows)))) =
     Inl (logic_error ''Column name not found.'')"
  by (simp add: new_result_two_columns GetValue_name_def bind_def FindColumnIndex_def
      FindColumnIndex_check_def result_set_sel numeral_2_eq_2)

lemma bind_Inl: "fst (f m) = Inl e \<Longrightarrow> fst (bind f g m) = Inl e"
  by (cases "f m") (auto simp: bind_def)

lemma password_block_fails:
  "fst (bind (GetValue_name ''user'') g
          (MysqlResult_new i (Some (result_set [''password'', ''is_deleted''] rows)))) =
     Inl (logic_error ''Column name not found.'')"
  using user_column_not_found [of i rows]
  by (rule bind_Inl [where f = "GetValue_name ''user''"])

text \<open>
  C3. \<^verbatim>\<open>GetUserLoginInfo\<close> selects the columns \<^verbatim>\<open>password\<close> and \<^verbatim>\<open>is_deleted\<close>, and
  then reads the password with \<^verbatim>\<open>res->GetValue("user")\<close>. The result has no column of
  that name, so on every database and for every user id, whether the row exists or not,
  \<^verbatim>\<open>FindColumnIndex\<close> throws "Column name not found." and the operation ends in a
  \<^verbatim>\<open>QueryException\<close>: no password is ever returned.
\<close>

theorem GetUserLoginInfo_column_user:
  "GetUserLoginInfo (on_server w) userId d =
     (Inl (QueryException_new (GetUserLoginInfo_password_query userId)
        (Some (w ''Column name not found.''))), d)"
proof -
  have "mysql_query (on_server w) d (c_str (GetUserLoginInfo_password_query userId)) =
     (Stored (Some (result_set [''password'', ''is_deleted'']
        (map (\<lambda>r. [SqlStr (u_password r), bool_val (u_is_deleted r)])
           (filter (\<lambda>r. u_id r = userId) (tbl_user d))))) 0, d)"
    by (simp add: on_server_def password_query_reply c_str_queries)
  then have "GetUserLoginInfo_password (on_server w) userId d =
     (Inl (QueryException_new (GetUserLoginInfo_password_query userId)
        (Some (w ''Column name not found.''))), d)"
    unfolding GetUserLoginInfo_password_def
    by (simp add: try_query_Stored password_block_fails catch_exception_def on_server_def)
  then show ?thesis
    by (simp add: GetUserLoginInfo_def)
qed

text \<open>
  C4. \<^verbatim>\<open>GetUserPostLoginInfo\<close> filters \<^verbatim>\<open>user\<close> by \<^verbatim>\<open>user_id\<close>. The table's key is
  \<^verbatim>\<open>id\<close> (the other statements of the file filter it by \<^verbatim>\<open>id\<close>) and it has no column
  \<^verbatim>\<open>user_id\<close>, so on every database and for every user id the server rejects the
  statement and the operation ends in a \<^verbatim>\<open>QueryException\<close>: no column is returned.
\<close>

theorem GetUserPostLoginInfo_user_id:
  "GetUserPostLoginInfo (on_server w) userId d =
     (Inl (QueryException_new (GetUserPostLoginInfo_query userId)
        (Some (w (''An error occurred when storing a result from a MySQL query: '' @
                  unknown_column ''user_id'' ''where clause'')))), d)"
  by (simp add: GetUserPostLoginInfo_def try_query_QueryFailed on_server_def
      post_login_query_reply c_str_queries)

subsection \<open>\<^verbatim>\<open>GetUserId\<close>\<close>

lemma int_of_ulonglong_of_nat:
  "n < 2 ^ 31 \<Longrightarrow> int_of_ulonglong (of_nat n) = int n"
  using int_of_ulonglong_small [of "int n"] by (simp add: INT_MAX_def)

lemma new_result_one_column:
  "length rows < 2 ^ 31 \<Longrightarrow>
   MysqlResult_new i (Some (result_set [c] rows)) =
     \<lparr>res = Some (result_set [c] rows), rowCount = int (length rows), columnCount = 1,
      columnNames = [], fetchedRows = [], autoGeneratedId = int_of_ulonglong i\<rparr>"
  by (simp add: MysqlResult_new_def mysql_num_rows_def mysql_num_fields_def result_set_sel
      int_of_uint_def int_of_ulonglong_of_nat)

lemma GetRowCount_one_column:
  "length rows < 2 ^ 31 \<Longrightarrow>
   GetRowCount (MysqlResult_new i (Some (result_set [c] rows))) = Inr (int (length rows))"
  by (simp add: new_result_one_column GetRowCount_def)

lemma GetValue_one_column:
  "length ((v # vs) # rest) < 2 ^ 31 \<Longrightarrow>
   fst (GetValue (MysqlResult_new i (Some (result_set [c] ((v # vs) # rest))))) =
     Inr (MysqlValue (render v))"
  by (simp add: new_result_one_column GetValue_def GetValue_index_def GetValue_row_index_def
      result_set_sel mysql_fetch_row_def fetched_cell_def Let_def del: length_Cons)

lemma AsInt_render_int: "fits_int i \<Longrightarrow> AsInt (MysqlValue (render (SqlInt i))) = Inr i"
  by (simp add: fits_int_def atoi_show_int)

text \<open>The lines of \<^verbatim>\<open>GetUserId\<close> after the query, on a result with the one column.\<close>

lemma GetUserId_body:
  assumes "length xs < 2 ^ 31" and "xs \<noteq> [] \<longrightarrow> fits_int (hd xs)"
  shows "fst ((bind (\<lambda>m. lift (GetRowCount m) m)
            (\<lambda>n. if n > 0 then bind GetValue (\<lambda>v. lift (AsInt v)) else return 0))
          (MysqlResult_new i (Some (result_set [c] (map (\<lambda>x. [SqlInt x]) xs))))) =
         Inr (case xs of [] \<Rightarrow> 0 | x # _ \<Rightarrow> x)"
proof (cases xs)
  case Nil
  then show ?thesis
    using GetRowCount_one_column [of "[]" i c]
    by (simp add: bind_def lift_def return_def)
next
  case (Cons x ys)
  let ?rows = "[SqlInt x] # map (\<lambda>x. [SqlInt x]) ys"
  have len: "length ?rows < 2 ^ 31"
    using assms(1) Cons by simp
  have "fst (GetValue (MysqlResult_new i (Some (result_set [c] ?rows)))) =
          Inr (MysqlValue (render (SqlInt x)))"
    using len by (rule GetValue_one_column)
  moreover have "AsInt (MysqlValue (render (SqlInt x))) = Inr x"
    using assms(2) Cons by (intro AsInt_render_int) simp
  ultimately show ?thesis
    using GetRowCount_one_column [OF len, of i c] Cons
    by (cases "GetValue (MysqlResult_new i (Some (result_set [c] ?rows)))")
       (simp add: bind_def lift_def return_def)
qed

lemma filter_find:
  "(case filter P xs of [] \<Rightarrow> a | r # _ \<Rightarrow> f r) = (case find P xs of None \<Rightarrow> a | Some r \<Rightarrow> f r)"
  by (induction xs) simp_all

lemma distinct_filter_key:
  "distinct (map f xs) \<Longrightarrow> length (filter (\<lambda>x. f x = a) xs) \<le> 1"
proof (induction xs)
  case Nil
  then show ?case by simp
next
  case (Cons x xs)
  show ?case
  proof (cases "f x = a")
    case True
    from Cons.prems have "f x \<notin> f ` set xs"
      by simp
    with True have "\<forall>y\<in>set xs. f y \<noteq> a"
      by blast
    then have "filter (\<lambda>y. f y = a) xs = []"
      by (simp add: filter_empty_conv)
    with True show ?thesis by simp
  next
    case False
    with Cons show ?thesis by simp
  qed
qed

text \<open>
  C5, amended. For every name with no apostrophe, no backslash and no NUL in it, on a
  table \<^verbatim>\<open>user\<close> whose names are unique (as the schema has them) and in which the id of
  the row of that name fits an \<^verbatim>\<open>int\<close>: \<^verbatim>\<open>GetUserId\<close> returns the id of the row whose
  name is equal to the given one, and \<open>0\<close> when there is none; it throws nothing and
  changes nothing.
\<close>

theorem GetUserId_plain:
  assumes "plain userName"
    and "distinct (map u_name (tbl_user d))"
    and "\<forall>r\<in>set (tbl_user d). u_name r = userName \<longrightarrow> fits_int (u_id r)"
  shows "GetUserId (on_server w) userName d =
           (Inr (case find (\<lambda>r. u_name r = userName) (tbl_user d) of
                   None \<Rightarrow> 0
                 | Some r \<Rightarrow> u_id r), d)"
proof -
  let ?found = "filter (\<lambda>r. u_name r = userName) (tbl_user d)"
  let ?ids = "map u_id ?found"
  have reply: "mysql_query (on_server w) d (c_str (GetUserId_query userName)) =
     (Stored (Some (result_set [''id''] (map (\<lambda>x. [SqlInt x]) ?ids))) 0, d)"
    using assms(1) by (simp add: on_server_def user_id_query_reply comp_def c_str_queries)
  have "length ?ids \<le> 1"
    using distinct_filter_key [OF assms(2), of userName] by simp
  then have len: "length ?ids < 2 ^ 31"
    by simp
  have fit: "?ids \<noteq> [] \<longrightarrow> fits_int (hd ?ids)"
  proof
    assume "?ids \<noteq> []"
    then obtain r rs where found: "?found = r # rs"
      by (cases ?found) auto
    then have "r \<in> set (tbl_user d) \<and> u_name r = userName"
      using filter_eq_ConsD [OF found] by auto
    then show "fits_int (hd ?ids)"
      using assms(3) found by simp
  qed
  have "(case ?ids of [] \<Rightarrow> 0 | x # _ \<Rightarrow> x) =
          (case find (\<lambda>r. u_name r = userName) (tbl_user d) of None \<Rightarrow> 0 | Some r \<Rightarrow> u_id r)"
    using filter_find [of 0 u_id "\<lambda>r. u_name r = userName" "tbl_user d"]
    by (cases ?found) simp_all
  then show ?thesis
    using GetUserId_body [OF len fit, of 0 "''id''"]
    by (simp add: GetUserId_def try_query_Stored [OF reply] catch_exception_def)
qed

theorem GetUserId_plain_witness:
  "GetUserId (on_server id) ''alice'' db_bans = (Inr 1, db_bans) \<and>
   GetUserId (on_server id) ''bob'' db_bans = (Inr 2, db_bans) \<and>
   GetUserId (on_server id) ''carol'' db_bans = (Inr 0, db_bans)"
  using GetUserId_plain [of "''alice''" db_bans id] GetUserId_plain [of "''bob''" db_bans id]
    GetUserId_plain [of "''carol''" db_bans id]
  by (simp add: plain_def db_bans_def new_user_def fits_int_def INT_MIN_def INT_MAX_def)

text \<open>
  The claim as stated fails at the name \<^verbatim>\<open>a'b\<close>: no row has this name, and the
  statement ends inside a string literal, so the call ends in a \<^verbatim>\<open>QueryException\<close>
  where the claim promises \<open>0\<close> and no failure.
\<close>

theorem GetUserId_counterexample:
  "filter (\<lambda>r. u_name r = ''a'b'') (tbl_user empty_db) = [] \<and>
   GetUserId (on_server id) ''a'b'' empty_db =
     (Inl (QueryException (''SELECT id FROM user WHERE name = 'a'b'' @ [apostrophe])
        (''An error occurred when processing a query: '' @
         ''An error occurred when storing a result from a MySQL query: '' @
         ''You have an error in your SQL syntax'' @
         '' The query string was: SELECT id FROM user WHERE name = 'a'b'' @ [apostrophe])),
      empty_db)"
  by code_simp

subsection \<open>\<^verbatim>\<open>CreateUserBan\<close> and \<^verbatim>\<open>CreateIpBan\<close>\<close>

lemma read_CreateIpBan_query:
  "plain ip \<Longrightarrow>
   read_statement (CreateIpBan_query ip e) =
     Inr (InsertSet ''ipban''
       ((''ip'', AStr ip) #
        (if e \<noteq> - 1 then [(''expiration_date'', AFromUnixtime e)] else [])))"
  by (simp add: plain_def CreateIpBan_query_def expiration_clause_def lex_simps parse_simps)

lemma read_CreateUserBan_query:
  "read_statement (CreateUserBan_query u e) =
     Inr (InsertSet ''userban''
       ((''user_id'', AInt u) #
        (if e \<noteq> - 1 then [(''expiration_date'', AFromUnixtime e)] else [])))"
  using lex_show_int [of u "[]"]
  by (simp add: CreateUserBan_query_def expiration_clause_def lex_simps parse_simps)

lemmas insert_simps = insert_row_def get_int_def get_str_def get_time_def assigned_type_def
  Let_def

lemma ip_ban_reply:
  "plain ip \<Longrightarrow>
   mysql_server d (CreateIpBan_query ip e) =
     (Stored None (word_of_int (next_id (map ib_id (tbl_ipban d)))),
      d\<lparr>tbl_ipban := tbl_ipban d @
          [\<lparr>ib_id = next_id (map ib_id (tbl_ipban d)), ib_ip = ip,
            ib_expiration_date = (if e = - 1 then None else FROM_UNIXTIME e)\<rparr>]\<rparr>)"
  by (simp add: read_CreateIpBan_query run_simps insert_simps)

lemma user_ban_reply:
  "u \<in> set (map u_id (tbl_user d)) \<Longrightarrow>
   mysql_server d (CreateUserBan_query u e) =
     (Stored None (word_of_int (next_id (map ub_id (tbl_userban d)))),
      d\<lparr>tbl_userban := tbl_userban d @
          [\<lparr>ub_id = next_id (map ub_id (tbl_userban d)), ub_user_id = u,
            ub_expiration_date = (if e = - 1 then None else FROM_UNIXTIME e)\<rparr>]\<rparr>)"
  by (simp add: read_CreateUserBan_query run_simps insert_simps)

text \<open>
  C6, amended. \<^verbatim>\<open>CreateIpBan\<close>, for an ip with no apostrophe, no backslash and no NUL
  in it, and \<^verbatim>\<open>CreateUserBan\<close>, for the id of a row of \<^verbatim>\<open>user\<close>, append one ban row for
  the subject;
  its expiration date is \<^verbatim>\<open>NULL\<close> when the argument is \<open>- 1\<close> and
  \<^verbatim>\<open>FROM_UNIXTIME\<close> of the argument otherwise; and the call returns the id of that row, as
  long as the id the table gives it is not negative and fits an \<^verbatim>\<open>int\<close>.
\<close>

theorem ban_inserted:
  "(plain ip \<and> 0 \<le> next_id (map ib_id (tbl_ipban d)) \<and>
    next_id (map ib_id (tbl_ipban d)) \<le> INT_MAX \<longrightarrow>
    CreateIpBan (on_server w) ip e d =
      (Inr (next_id (map ib_id (tbl_ipban d))),
       d\<lparr>tbl_ipban := tbl_ipban d @
           [\<lparr>ib_id = next_id (map ib_id (tbl_ipban d)), ib_ip = ip,
             ib_expiration_date = (if e = - 1 then None else FROM_UNIXTIME e)\<rparr>]\<rparr>)) \<and>
   (userId \<in> set (map u_id (tbl_user d)) \<and> 0 \<le> next_id (map ub_id (tbl_userban d)) \<and>
    next_id (map ub_id (tbl_userban d)) \<le> INT_MAX \<longrightarrow>
    CreateUserBan (on_server w) userId e d =
      (Inr (next_id (map ub_id (tbl_userban d))),
       d\<lparr>tbl_userban := tbl_userban d @
           [\<lparr>ub_id = next_id (map ub_id (tbl_userban d)), ub_user_id = userId,
             ub_expiration_date = (if e = - 1 then None else FROM_UNIXTIME e)\<rparr>]\<rparr>))"
proof (intro conjI impI)
  assume "plain ip \<and> 0 \<le> next_id (map ib_id (tbl_ipban d)) \<and>
    next_id (map ib_id (tbl_ipban d)) \<le> INT_MAX"
  then show "CreateIpBan (on_server w) ip e d =
      (Inr (next_id (map ib_id (tbl_ipban d))),
       d\<lparr>tbl_ipban := tbl_ipban d @
           [\<lparr>ib_id = next_id (map ib_id (tbl_ipban d)), ib_ip = ip,
             ib_expiration_date = (if e = - 1 then None else FROM_UNIXTIME e)\<rparr>]\<rparr>)"
    using insert_returns_id [where R = "on_server w" and s = d and q = "CreateIpBan_query ip e"]
    by (simp add: CreateIpBan_def on_server_def ip_ban_reply int_of_ulonglong_small
        c_str_queries)
next
  assume "userId \<in> set (map u_id (tbl_user d)) \<and> 0 \<le> next_id (map ub_id (tbl_userban d)) \<and>
    next_id (map ub_id (tbl_userban d)) \<le> INT_MAX"
  then show "CreateUserBan (on_server w) userId e d =
      (Inr (next_id (map ub_id (tbl_userban d))),
       d\<lparr>tbl_userban := tbl_userban d @
           [\<lparr>ub_id = next_id (map ub_id (tbl_userban d)), ub_user_id = userId,
             ub_expiration_date = (if e = - 1 then None else FROM_UNIXTIME e)\<rparr>]\<rparr>)"
    using insert_returns_id [where R = "on_server w" and s = d
        and q = "CreateUserBan_query userId e"]
    by (simp add: CreateUserBan_def on_server_def user_ban_reply int_of_ulonglong_small
        c_str_queries)
qed

theorem ban_inserted_witness:
  "CreateIpBan (on_server id) ''10.0.0.1'' 1800000000 db_bans =
     (Inr 4,
      db_bans\<lparr>tbl_ipban := tbl_ipban db_bans @
        [\<lparr>ib_id = 4, ib_ip = ''10.0.0.1'', ib_expiration_date = FROM_UNIXTIME 1800000000\<rparr>]\<rparr>) \<and>
   CreateIpBan (on_server id) ''10.0.0.1'' (- 1) db_bans =
     (Inr 4,
      db_bans\<lparr>tbl_ipban := tbl_ipban db_bans @
        [\<lparr>ib_id = 4, ib_ip = ''10.0.0.1'', ib_expiration_date = None\<rparr>]\<rparr>) \<and>
   CreateUserBan (on_server id) 2 1900000000 db_bans =
     (Inr 5,
      db_bans\<lparr>tbl_userban := tbl_userban db_bans @
        [\<lparr>ub_id = 5, ub_user_id = 2, ub_expiration_date = FROM_UNIXTIME 1900000000\<rparr>]\<rparr>) \<and>
   CreateUserBan (on_server id) 2 (- 1) db_bans =
     (Inr 5,
      db_bans\<lparr>tbl_userban := tbl_userban db_bans @
        [\<lparr>ub_id = 5, ub_user_id = 2, ub_expiration_date = None\<rparr>]\<rparr>)"
proof -
  have ids: "next_id (map ib_id (tbl_ipban db_bans)) = 4"
    "next_id (map ub_id (tbl_userban db_bans)) = 5"
    by code_simp+
  have ok: "plain ''10.0.0.1''" "2 \<in> set (map u_id (tbl_user db_bans))"
    "(0::int) \<le> 4" "4 \<le> INT_MAX" "(0::int) \<le> 5" "5 \<le> INT_MAX"
    by code_simp+
  show ?thesis
    using ids ok
      ban_inserted [of "''10.0.0.1''" db_bans id 1800000000 2]
      ban_inserted [of "''10.0.0.1''" db_bans id "- 1" 2]
      ban_inserted [of "''10.0.0.1''" db_bans id 1900000000 2]
    by simp
qed

text \<open>
  The claim as stated fails at the address \<^verbatim>\<open>10.0.0.3'x\<close>: the statement ends inside a
  string literal, no row is inserted and no id is returned.
\<close>

theorem ban_inserted_counterexample:
  "CreateIpBan (on_server id) ''10.0.0.3'x'' (- 1) empty_db =
     (Inl (QueryException (''INSERT INTO ipban SET ip = '10.0.0.3'x'' @ [apostrophe])
        (''An error occurred when processing a query: '' @
         ''An error occurred when storing a result from a MySQL query: '' @
         ''You have an error in your SQL syntax'' @
         '' The query string was: INSERT INTO ipban SET ip = '10.0.0.3'x'' @ [apostrophe])),
      empty_db)"
  by code_simp

subsection \<open>Ban resolution\<close>

lemma signed_value_1: "signed_value ''1'' = 1"
  by (simp add: signed_value_def isdigit_def digit_val_def)

lemma read_GetIpBanInfo_query:
  "plain ip \<Longrightarrow>
   read_statement (GetIpBanInfo_query ip) =
     Inr (UnionLimit
       (Select [INull ''expiration_date_unix''] ''ipban''
          [Eq ''ip'' (LStr ip), IsNull ''expiration_date''] None)
       (Select [IUnixTimestamp ''expiration_date'' ''expiration_date_unix''] ''ipban''
          [Eq ''ip'' (LStr ip), IsNotNull ''expiration_date'']
          (Some ''expiration_date_unix''))
       1)"
  by (simp add: plain_def GetIpBanInfo_query_def lex_simps parse_simps signed_value_1)

lemma read_GetUserLoginInfo_ban_query:
  "read_statement (GetUserLoginInfo_ban_query u) =
     Inr (UnionLimit
       (Select [INull ''expiration_date_unix''] ''userban''
          [Eq ''user_id'' (LInt u), IsNull ''expiration_date''] None)
       (Select [IUnixTimestamp ''expiration_date'' ''expiration_date_unix''] ''userban''
          [Eq ''user_id'' (LInt u), IsNotNull ''expiration_date'']
          (Some ''expiration_date_unix''))
       1)"
  by (simp add: GetUserLoginInfo_ban_query_def lex_simps parse_simps signed_value_1)

lemma time_val_eq_Null [simp]: "(time_val e = SqlNull) = (e = None)"
  by (cases e) (simp_all add: time_val_def)

lemma unix_timestamp_time_val [simp]:
  "(case time_val e of SqlTime t \<Rightarrow> SqlInt t | _ \<Rightarrow> SqlNull) =
     (case e of None \<Rightarrow> SqlNull | Some t \<Rightarrow> SqlInt t)"
  by (cases e) (simp_all add: time_val_def)

lemma order_typed_timestamp [simp]:
  "order_typed (case e of None \<Rightarrow> SqlNull | Some t \<Rightarrow> SqlInt t)"
  by (cases e) simp_all

lemmas ban_simps = mysql_server_def table_schema_def first_missing_def table_rows_def
  user_view_def userban_view_def ipban_view_def cell_of_def order_rows_def
  filter_map comp_def bool_val_def find_position_def list.pred_map

lemma ip_ban_query_reply:
  "plain ip \<Longrightarrow>
   mysql_server d (GetIpBanInfo_query ip) =
     (Stored (Some (result_set [''expiration_date_unix'']
        (ban_rows (inner_order_by d) (ip_bans d ip)))) 0, d)"
  by (cases "inner_order_by d")
     (simp_all add: read_GetIpBanInfo_query ban_simps ban_rows_def null_rows_def timed_rows_def
      ip_bans_def Let_def list_all_iff)

lemma user_ban_query_reply:
  "mysql_server d (GetUserLoginInfo_ban_query u) =
     (Stored (Some (result_set [''expiration_date_unix'']
        (ban_rows (inner_order_by d) (user_bans d u)))) 0, d)"
  by (cases "inner_order_by d")
     (simp_all add: read_GetUserLoginInfo_ban_query ban_simps ban_rows_def null_rows_def
      timed_rows_def user_bans_def Let_def list_all_iff)

lemma last_remdups: "ys \<noteq> [] \<Longrightarrow> last (remdups ys) = last ys"
proof (induction ys)
  case Nil
  then show ?case by simp
next
  case (Cons y ys)
  show ?case
  proof (cases "ys = []")
    case True
    then show ?thesis by simp
  next
    case False
    then have "remdups ys \<noteq> []"
      by simp
    with Cons.IH [OF False] False show ?thesis
      by simp
  qed
qed

lemma take_1_distinct_first: "xs \<noteq> [] \<Longrightarrow> take 1 (distinct_first xs) = [hd xs]"
proof -
  assume ne: "xs \<noteq> []"
  then have "rev (remdups (rev xs)) \<noteq> []"
    by simp
  moreover have "hd (rev (remdups (rev xs))) = hd xs"
    using ne by (simp add: hd_rev last_remdups last_rev)
  ultimately show ?thesis
    by (cases "rev (remdups (rev xs))") (simp_all add: distinct_first_def)
qed

lemma distinct_first_Nil: "distinct_first [] = []"
  by (simp add: distinct_first_def)

lemma hd_sort_desc:
  assumes "ts \<noteq> []"
  shows "hd (sort_key (\<lambda>row. desc_key (row ! 0)) (map (\<lambda>t. [SqlInt t]) ts)) =
           [SqlInt (Max (set ts))]"
proof -
  let ?k = "\<lambda>row. desc_key (row ! 0)"
  let ?rows = "map (\<lambda>t. [SqlInt t]) ts"
  let ?s = "sort_key ?k ?rows"
  have ne: "?s \<noteq> []"
    using assms by (metis length_sort length_map length_0_conv)
  then obtain r rs where s: "?s = r # rs"
    by (cases ?s) auto
  have "set ?s = set ?rows"
    by simp
  with s have "r \<in> set ?rows"
    by (metis list.set_intros(1))
  then obtain t where t: "t \<in> set ts" "r = [SqlInt t]"
    by auto
  have "sorted (map ?k ?s)"
    by (rule sorted_sort_key)
  with s have le: "\<forall>y\<in>set ?s. ?k r \<le> ?k y"
    by auto
  have "u \<le> t" if "u \<in> set ts" for u
  proof -
    from that have "[SqlInt u] \<in> set ?s"
      by simp
    with le have "?k r \<le> ?k [SqlInt u]"
      by blast
    with t show ?thesis
      by simp
  qed
  with t have "Max (set ts) = t"
    by (intro Max_eqI) auto
  with s t show ?thesis
    by simp
qed

lemma timed_values:
  "None \<notin> set es \<Longrightarrow>
   map (\<lambda>e. [case e of None \<Rightarrow> SqlNull | Some t \<Rightarrow> SqlInt t]) es =
     map (\<lambda>t. [SqlInt t]) [t. Some t \<leftarrow> es]"
proof (induction es)
  case Nil
  then show ?case by simp
next
  case (Cons a es)
  then show ?case by (cases a) auto
qed

lemma timed_values_Nil: "None \<notin> set es \<Longrightarrow> ([t. Some t \<leftarrow> es] = []) = (es = [])"
proof (induction es)
  case Nil
  then show ?case by simp
next
  case (Cons a es)
  then show ?case by (cases a) auto
qed

lemma hd_timed_values:
  "None \<notin> set es \<Longrightarrow> es \<noteq> [] \<Longrightarrow> hd [t. Some t \<leftarrow> es] = the (hd es)"
proof (cases es)
  case Nil
  assume "es \<noteq> []"
  with Nil show ?thesis by simp
next
  case (Cons a es')
  assume "None \<notin> set es"
  with Cons obtain t where "a = Some t"
    by (cases a) auto
  with Cons show ?thesis by simp
qed

text \<open>
  The value the operations read from the one row of the reply: the largest date where
  the server sorts the second select, the date of the first matching row where it does
  not.
\<close>

lemma ban_rows_cases:
  "ban_rows ob es =
     (if None \<in> set es then [[SqlNull]]
      else if es = [] then []
      else [[SqlInt (if ob then Max (set [t. Some t \<leftarrow> es]) else the (hd es))]])"
proof (cases "None \<in> set es")
  case True
  then have ne: "filter (\<lambda>e. e = None) es \<noteq> []"
    by (simp add: filter_empty_conv)
  then have "null_rows es \<noteq> []" "hd (null_rows es) = [SqlNull]"
    by (simp_all add: null_rows_def hd_map)
  then have "null_rows es @ timed_rows ob es \<noteq> []"
    "hd (null_rows es @ timed_rows ob es) = [SqlNull]"
    by simp_all
  with True show ?thesis
    by (simp add: ban_rows_def take_1_distinct_first del: take_Suc_Cons One_nat_def)
next
  case False
  then have all: "filter (\<lambda>e. e \<noteq> None) es = es" and none: "filter (\<lambda>e. e = None) es = []"
    by (simp_all add: filter_empty_conv filter_id_conv) (metis not_None_eq)+
  let ?ts = "[t. Some t \<leftarrow> es]"
  let ?rows = "map (\<lambda>t. [SqlInt t]) ?ts"
  have timed: "timed_rows ob es =
      (if ob then sort_key (\<lambda>row. desc_key (row ! 0)) ?rows else ?rows)"
    unfolding timed_rows_def Let_def all timed_values [OF False] ..
  show ?thesis
  proof (cases "es = []")
    case True
    then show ?thesis
      by (simp add: ban_rows_def null_rows_def timed_rows_def distinct_first_def)
  next
    case nonempty: False
    then have ts: "?ts \<noteq> []"
      using timed_values_Nil [OF False] by simp
    then have "timed_rows ob es \<noteq> []"
      unfolding timed by (metis (full_types) length_sort length_map length_0_conv)
    moreover have "hd (timed_rows ob es) =
        [SqlInt (if ob then Max (set ?ts) else the (hd es))]"
    proof (cases ob)
      case True
      with hd_sort_desc [OF ts] show ?thesis
        unfolding timed by simp
    next
      case unsorted: False
      with ts hd_timed_values [OF False nonempty] show ?thesis
        unfolding timed by (simp add: hd_map)
    qed
    ultimately show ?thesis
      using False nonempty
      by (simp add: ban_rows_def null_rows_def none take_1_distinct_first
          del: take_Suc_Cons One_nat_def)
  qed
qed

lemma Max_in_list: "ts \<noteq> [] \<Longrightarrow> Max (set ts) \<in> set ts"
  by simp

lemma ban_body:
  assumes "timestamps_fit es"
  shows "fst (banExpirationDate_of (MysqlResult_new i (Some (result_set [c] (ban_rows ob es))))) =
           Inr (if ob \<or> None \<in> set es \<or> es = [] then ban_resolution es else the (hd es))"
proof -
  consider (null) "None \<in> set es" | (none) "None \<notin> set es" "es = []"
    | (timed) "None \<notin> set es" "es \<noteq> []"
    by blast
  then show ?thesis
  proof cases
    case null
    then have rows: "ban_rows ob es = [[SqlNull]]"
      by (simp add: ban_rows_cases)
    have "fst (GetValue (MysqlResult_new i (Some (result_set [c] [[SqlNull]])))) =
            Inr (MysqlValue (render SqlNull))"
      by (rule GetValue_one_column) simp
    then show ?thesis
      using null GetRowCount_one_column [of "[[SqlNull]]" i c]
      by (cases "GetValue (MysqlResult_new i (Some (result_set [c] [[SqlNull]])))")
         (simp add: rows banExpirationDate_of_def bind_def lift_def return_def
            ban_resolution_def)
  next
    case none
    then have rows: "ban_rows ob es = []"
      by (simp add: ban_rows_cases)
    show ?thesis
      using none GetRowCount_one_column [of "[]" i c]
      by (simp add: ban_rows_cases banExpirationDate_of_def bind_def lift_def return_def
          ban_resolution_def)
  next
    case timed
    let ?ts = "[t. Some t \<leftarrow> es]"
    let ?m = "if ob then Max (set ?ts) else the (hd es)"
    from timed have rows: "ban_rows ob es = [[SqlInt ?m]]"
      by (simp add: ban_rows_cases)
    from timed have ts: "?ts \<noteq> []"
      using timed_values_Nil [of es] by simp
    then have "Max (set ?ts) \<in> set ?ts"
      by (rule Max_in_list)
    moreover from ts have "hd ?ts \<in> set ?ts"
      by (rule hd_in_set)
    then have "the (hd es) \<in> set ?ts"
      using timed hd_timed_values [of es] by simp
    ultimately have "?m \<in> set ?ts"
      by simp
    with assms have "fits_int ?m"
      unfolding timestamps_fit_def list_all_iff by blast
    then have int: "AsInt (MysqlValue (render (SqlInt ?m))) = Inr ?m"
      by (rule AsInt_render_int)
    have "fst (GetValue (MysqlResult_new i (Some (result_set [c] [[SqlInt ?m]])))) =
            Inr (MysqlValue (render (SqlInt ?m)))"
      by (rule GetValue_one_column) simp
    then show ?thesis
      using timed int GetRowCount_one_column [of "[[SqlInt ?m]]" i c]
      by (cases "GetValue (MysqlResult_new i (Some (result_set [c] [[SqlInt ?m]])))")
         (simp add: rows banExpirationDate_of_def bind_def lift_def return_def
            ban_resolution_def)
  qed
qed

lemma GetIpBanInfo_returns:
  assumes "plain ip" and "timestamps_fit (ip_bans d ip)"
  shows "GetIpBanInfo (on_server w) ip d =
           (Inr \<lparr>ip_ban_expiration =
              (if inner_order_by d \<or> None \<in> set (ip_bans d ip) \<or> ip_bans d ip = []
               then ban_resolution (ip_bans d ip) else the (hd (ip_bans d ip)))\<rparr>, d)"
proof -
  have "mysql_query (on_server w) d (c_str (GetIpBanInfo_query ip)) =
     (Stored (Some (result_set [''expiration_date_unix'']
        (ban_rows (inner_order_by d) (ip_bans d ip)))) 0, d)"
    using assms(1) by (simp add: on_server_def ip_ban_query_reply c_str_queries)
  then show ?thesis
    using ban_body [OF assms(2), of 0 "''expiration_date_unix''" "inner_order_by d"]
    by (simp add: GetIpBanInfo_def try_query_Stored catch_exception_def)
qed

lemma GetUserLoginInfo_ban_returns:
  assumes "timestamps_fit (user_bans d u)"
  shows "GetUserLoginInfo_ban (on_server w) u d =
           (Inr (if inner_order_by d \<or> None \<in> set (user_bans d u) \<or> user_bans d u = []
                 then ban_resolution (user_bans d u) else the (hd (user_bans d u))), d)"
proof -
  have "mysql_query (on_server w) d (c_str (GetUserLoginInfo_ban_query u)) =
     (Stored (Some (result_set [''expiration_date_unix'']
        (ban_rows (inner_order_by d) (user_bans d u)))) 0, d)"
    by (simp add: on_server_def user_ban_query_reply c_str_queries)
  then show ?thesis
    using ban_body [OF assms, of 0 "''expiration_date_unix''" "inner_order_by d"]
    by (simp add: GetUserLoginInfo_ban_def try_query_Stored catch_exception_def)
qed

text \<open>
  C1. The ban statement writes \<^verbatim>\<open>ORDER BY expiration_date_unix DESC\<close> inside the second
  member of its \<^verbatim>\<open>UNION\<close> and \<^verbatim>\<open>LIMIT 1\<close> outside. For an address with no apostrophe, no
  backslash and no NUL in it, and expiration dates that fit an \<^verbatim>\<open>int\<close>, \<^verbatim>\<open>GetIpBanInfo\<close>
  returns the resolution of the \<^verbatim>\<open>ipban\<close> rows of that address (\<open>- 1\<close> if one of them
  has no expiration date, otherwise the largest expiration date if there are any,
  otherwise \<open>0\<close>) in three cases only: the server sorts the member, or a row has no
  expiration date, or no row matches. In the remaining case, timed bans only on a server
  that drops the member's \<^verbatim>\<open>ORDER BY\<close>, it returns the expiration date of the first
  matching row in the table's order, whether or not it is the largest. The second block
  of \<^verbatim>\<open>GetUserLoginInfo\<close> (the ban statement and the lines after it) does the same with
  the \<^verbatim>\<open>userban\<close> rows of the user id.
\<close>

theorem ban_resolution_first_row:
  "(plain ip \<and> timestamps_fit (ip_bans d ip) \<longrightarrow>
      GetIpBanInfo (on_server w) ip d =
        (Inr \<lparr>ip_ban_expiration =
           (if inner_order_by d \<or> None \<in> set (ip_bans d ip) \<or> ip_bans d ip = []
            then ban_resolution (ip_bans d ip)
            else the (hd (ip_bans d ip)))\<rparr>, d)) \<and>
   (timestamps_fit (user_bans d userId) \<longrightarrow>
      GetUserLoginInfo_ban (on_server w) userId d =
        (Inr (if inner_order_by d \<or> None \<in> set (user_bans d userId) \<or> user_bans d userId = []
              then ban_resolution (user_bans d userId)
              else the (hd (user_bans d userId))), d))"
proof (intro conjI impI)
  assume "plain ip \<and> timestamps_fit (ip_bans d ip)"
  then show "GetIpBanInfo (on_server w) ip d =
        (Inr \<lparr>ip_ban_expiration =
           (if inner_order_by d \<or> None \<in> set (ip_bans d ip) \<or> ip_bans d ip = []
            then ban_resolution (ip_bans d ip)
            else the (hd (ip_bans d ip)))\<rparr>, d)"
    by (intro GetIpBanInfo_returns) simp_all
next
  assume "timestamps_fit (user_bans d userId)"
  then show "GetUserLoginInfo_ban (on_server w) userId d =
        (Inr (if inner_order_by d \<or> None \<in> set (user_bans d userId) \<or> user_bans d userId = []
              then ban_resolution (user_bans d userId)
              else the (hd (user_bans d userId))), d)"
    by (rule GetUserLoginInfo_ban_returns)
qed

text \<open>
  Two timed bans on the address \<^verbatim>\<open>10.0.0.2\<close> and on the user \<open>2\<close>, the earlier one
  inserted first, on a server that drops the member's \<^verbatim>\<open>ORDER BY\<close>: the resolution is
  \<open>1800000000\<close>, the operations return \<open>1700000000\<close>, and \<open>1800000000\<close> once the rows
  stand in the other order. With a permanent ban, with no ban, and on a server that
  sorts the member, they return the resolution.
\<close>

theorem ban_resolution_first_row_witness:
  "ban_resolution (ip_bans db_bans ''10.0.0.2'') = 1800000000 \<and>
   GetIpBanInfo (on_server id) ''10.0.0.2'' db_bans =
     (Inr \<lparr>ip_ban_expiration = 1700000000\<rparr>, db_bans) \<and>
   fst (GetIpBanInfo (on_server id) ''10.0.0.2''
          (db_bans\<lparr>tbl_ipban := rev (tbl_ipban db_bans)\<rparr>)) =
     Inr \<lparr>ip_ban_expiration = 1800000000\<rparr> \<and>
   fst (GetIpBanInfo (on_server id) ''10.0.0.2'' (db_bans\<lparr>inner_order_by := True\<rparr>)) =
     Inr \<lparr>ip_ban_expiration = 1800000000\<rparr> \<and>
   GetIpBanInfo (on_server id) ''10.0.0.9'' db_bans = (Inr \<lparr>ip_ban_expiration = 0\<rparr>, db_bans) \<and>
   ban_resolution (user_bans db_bans 2) = 1800000000 \<and>
   GetUserLoginInfo_ban (on_server id) 2 db_bans = (Inr 1700000000, db_bans) \<and>
   fst (GetUserLoginInfo_ban (on_server id) 2
          (db_bans\<lparr>tbl_userban := rev (tbl_userban db_bans)\<rparr>)) = Inr 1800000000 \<and>
   GetUserLoginInfo_ban (on_server id) 1 db_bans = (Inr (- 1), db_bans)"
proof -
  let ?ip = "db_bans\<lparr>tbl_ipban := rev (tbl_ipban db_bans)\<rparr>"
  let ?user = "db_bans\<lparr>tbl_userban := rev (tbl_userban db_bans)\<rparr>"
  let ?sorting = "db_bans\<lparr>inner_order_by := True\<rparr>"
  have rows:
    "ip_bans db_bans ''10.0.0.2'' = [Some 1700000000, Some 1800000000]"
    "ip_bans ?ip ''10.0.0.2'' = [Some 1800000000, Some 1700000000]"
    "ip_bans ?sorting ''10.0.0.2'' = [Some 1700000000, Some 1800000000]"
    "ip_bans db_bans ''10.0.0.9'' = []"
    "user_bans db_bans 2 = [Some 1700000000, Some 1800000000]"
    "user_bans ?user 2 = [Some 1800000000, Some 1700000000]"
    "user_bans db_bans 1 = [None, Some 2000000000]"
    by (simp_all add: ip_bans_def user_bans_def db_bans_def)
  have setting: "\<not> inner_order_by db_bans" "\<not> inner_order_by ?ip" "\<not> inner_order_by ?user"
    "inner_order_by ?sorting"
    by (simp_all add: db_bans_def)
  have ok: "plain ''10.0.0.2''" "plain ''10.0.0.9''"
    "timestamps_fit [Some 1700000000, Some 1800000000]"
    "timestamps_fit [Some 1800000000, Some 1700000000]"
    "timestamps_fit [None, Some 2000000000]" "timestamps_fit []"
    by (simp_all add: plain_def timestamps_fit_def fits_int_def INT_MIN_def INT_MAX_def)
  have vals: "ban_resolution [Some 1700000000, Some 1800000000] = 1800000000"
    "ban_resolution [None, Some 2000000000] = - 1" "ban_resolution [] = 0"
    by (simp_all add: ban_resolution_def)
  show ?thesis
    using rows setting ok vals
      ban_resolution_first_row [where ip = "''10.0.0.2''" and d = db_bans and w = id
        and userId = 2]
      ban_resolution_first_row [where ip = "''10.0.0.2''" and d = ?ip and w = id
        and userId = 1]
      ban_resolution_first_row [where ip = "''10.0.0.2''" and d = ?sorting and w = id
        and userId = 1]
      ban_resolution_first_row [where ip = "''10.0.0.9''" and d = db_bans and w = id
        and userId = 1]
      ban_resolution_first_row [where ip = "''10.0.0.9''" and d = ?user and w = id
        and userId = 2]
    by simp
qed

text \<open>
  The address is pasted between apostrophes as it is. At the subject
  \<^verbatim>\<open>a' AND ip = 'b\<close> the table has a permanent ban, so the resolution is \<open>- 1\<close>, but the
  statement asks for rows whose \<^verbatim>\<open>ip\<close> is \<^verbatim>\<open>a\<close> and is \<^verbatim>\<open>b\<close>, finds none, and the
  operation returns \<open>0\<close>.
\<close>

lemma GetIpBanInfo_unescaped:
  "ban_resolution (ip_bans db_bans ''a' AND ip = 'b'') = - 1 \<and>
   GetIpBanInfo (on_server id) ''a' AND ip = 'b'' db_bans =
     (Inr \<lparr>ip_ban_expiration = 0\<rparr>, db_bans)"
  by code_simp

subsection \<open>\<^verbatim>\<open>CreateUser\<close>\<close>

lemma read_CreateUser_query:
  "plain name \<Longrightarrow> plain password \<Longrightarrow>
   read_statement (CreateUser_query name password isMale creationIp) =
     Inr (InsertSet ''user''
       ([(''name'', AStr name), (''password'', AStr password),
         (''is_male'', AInt (if isMale then 1 else 0))] @
        (if creationIp = [] then [(''creation_ip'', AStr [])] else [])))"
  using lex_show_int [of "if isMale then 1 else 0" "[]"]
  by (simp add: plain_def CreateUser_query_def show_bool_def lex_simps parse_simps)

lemma user_reply:
  "plain name \<Longrightarrow> plain password \<Longrightarrow> name \<notin> set (map u_name (tbl_user d)) \<Longrightarrow>
   mysql_server d (CreateUser_query name password isMale creationIp) =
     (Stored None (word_of_int (next_id (map u_id (tbl_user d)))),
      d\<lparr>tbl_user := tbl_user d @
          [new_user (next_id (map u_id (tbl_user d))) name password isMale
             (if creationIp = [] then Some [] else None)]\<rparr>)"
  by (simp add: read_CreateUser_query run_simps insert_simps get_str_null_def new_user_def)

text \<open>
  C2. What \<^verbatim>\<open>CreateUser\<close> does with \<^verbatim>\<open>creationIp\<close>: the test \<^verbatim>\<open>creationIp.empty()\<close>
  is the wrong way round. For a new name (name and password without apostrophe,
  backslash or NUL) one row is inserted with the name, the password and \<^verbatim>\<open>is_male\<close>; its
  \<^verbatim>\<open>creation_ip\<close> is set, to the empty string, exactly when the argument is empty, and is
  left at its default when an address is given.
\<close>

theorem CreateUser_creation_ip:
  "plain name \<and> plain password \<and> name \<notin> set (map u_name (tbl_user d)) \<and>
   0 \<le> next_id (map u_id (tbl_user d)) \<and> next_id (map u_id (tbl_user d)) \<le> INT_MAX \<longrightarrow>
   CreateUser (on_server w) name password isMale creationIp d =
     (Inr (next_id (map u_id (tbl_user d))),
      d\<lparr>tbl_user := tbl_user d @
          [new_user (next_id (map u_id (tbl_user d))) name password isMale
             (if creationIp = [] then Some [] else None)]\<rparr>)"
proof
  assume a: "plain name \<and> plain password \<and> name \<notin> set (map u_name (tbl_user d)) \<and>
   0 \<le> next_id (map u_id (tbl_user d)) \<and> next_id (map u_id (tbl_user d)) \<le> INT_MAX"
  then show "CreateUser (on_server w) name password isMale creationIp d =
     (Inr (next_id (map u_id (tbl_user d))),
      d\<lparr>tbl_user := tbl_user d @
          [new_user (next_id (map u_id (tbl_user d))) name password isMale
             (if creationIp = [] then Some [] else None)]\<rparr>)"
    using insert_returns_id [where R = "on_server w" and s = d
        and q = "CreateUser_query name password isMale creationIp"]
    by (simp add: CreateUser_def on_server_def user_reply int_of_ulonglong_small
        c_str_queries)
qed

theorem CreateUser_creation_ip_witness:
  "CreateUser (on_server id) ''alice'' ''H'' True ''1.2.3.4'' empty_db =
     (Inr 1, empty_db\<lparr>tbl_user := [new_user 1 ''alice'' ''H'' True None]\<rparr>) \<and>
   CreateUser (on_server id) ''alice'' ''H'' True [] empty_db =
     (Inr 1, empty_db\<lparr>tbl_user := [new_user 1 ''alice'' ''H'' True (Some [])]\<rparr>)"
proof -
  have ok: "plain ''alice''" "plain ''H''" "''alice'' \<notin> set (map u_name (tbl_user empty_db))"
    "next_id (map u_id (tbl_user empty_db)) = 1" "(1::int) \<le> INT_MAX"
    by code_simp+
  show ?thesis
    using ok CreateUser_creation_ip [of "''alice''" "''H''" empty_db id True "''1.2.3.4''"]
      CreateUser_creation_ip [of "''alice''" "''H''" empty_db id True "[]"]
    by (simp add: empty_db_def)
qed

subsection \<open>What a \<^verbatim>\<open>QueryException\<close> carries\<close>

text \<open>
  C7. Creating a user whose name is taken fails in the server with "Duplicate entry". The
  \<^verbatim>\<open>QueryException\<close> that reaches the caller carries the statement text, and as its cause
  what \<^verbatim>\<open>std::exception::what\<close> returns on the copy the handler caught by value, here
  \<open>w\<close> of the thrown message: with a library where that is the fixed text
  \<^verbatim>\<open>std::exception\<close>, the server's message is not in the description.
\<close>

theorem QueryException_cause:
  "CreateUser (on_server w) ''alice'' ''H'' True [] db_alice =
     (Inl (QueryException (CreateUser_query ''alice'' ''H'' True [])
        (''An error occurred when processing a query: '' @
         w (''An error occurred when storing a result from a MySQL query: '' @
            ''Duplicate entry 'alice' for key 'name'' @ [apostrophe]) @
         '' The query string was: '' @ CreateUser_query ''alice'' ''H'' True [])), db_alice) \<and>
   CreateUser (on_server (\<lambda>m. ''std::exception'')) ''alice'' ''H'' True [] db_alice =
     (Inl (QueryException (CreateUser_query ''alice'' ''H'' True [])
        (''An error occurred when processing a query: std::exception'' @
         '' The query string was: '' @ CreateUser_query ''alice'' ''H'' True [])), db_alice) \<and>
   CreateUser_query ''alice'' ''H'' True [] =
     ''INSERT INTO user SET name = 'alice',password = 'H',is_male = 1, creation_ip = '' @
     [apostrophe, apostrophe]"
  by code_simp

end
